theory Spec2Isabelle
  imports Main
begin

section \<open>Limo: the conversational app builder\<close>

text \<open>
  The component \<open>LimoApp\<close> keeps a chat with a generative model, asks it for a structured
  artifact (name, theme, code) and renders that artifact into a preview document. This theory
  embeds the component's state and its event handlers as functions on an explicit state, with
  the two collaborators the handlers call taken as parameters: the model call
  \<open>ai.models.generateContent\<close> and the platform's \<open>JSON.parse\<close>.
\<close>

subsection \<open>JavaScript strings\<close>

text \<open>
  A JavaScript string is modelled as a \<open>string\<close>, one \<open>char\<close> per code unit, so the
  strings of the model are those of code units below 256. The string methods below are the
  platform's, on these strings.
\<close>

definition BUILD_PROPOSAL_TOKEN :: string where
  "BUILD_PROPOSAL_TOKEN = ''[PROPOSE_BUILD]''"

text \<open>\<open>s.startsWith(p)\<close> and \<open>s.endsWith(p)\<close>.\<close>

definition startsWith :: "string \<Rightarrow> string \<Rightarrow> bool" where
  "startsWith s p = (take (length p) s = p)"

definition endsWith :: "string \<Rightarrow> string \<Rightarrow> bool" where
  "endsWith s p = (length p \<le> length s \<and> drop (length s - length p) s = p)"

text \<open>\<open>s.includes(p)\<close>: \<open>p\<close> occurs in \<open>s\<close> at some position.\<close>

fun str_includes :: "string \<Rightarrow> string \<Rightarrow> bool" where
  "str_includes [] p = (p = [])"
| "str_includes (c # cs) p = (startsWith (c # cs) p \<or> str_includes cs p)"

text \<open>
  The occurrence of one string in another, stated without a search: \<open>p\<close> lies between some
  \<open>u\<close> and \<open>v\<close>. It is what \<open>str_includes\<close> decides.
\<close>

definition occurs_in :: "string \<Rightarrow> string \<Rightarrow> bool" where
  "occurs_in p s = (\<exists>u v. s = u @ p @ v)"

text \<open>
  \<open>s.replace(p, r)\<close> with a string pattern \<open>p\<close>: only the first (leftmost) occurrence of
  \<open>p\<close> is replaced; a string without an occurrence is returned as it is.
\<close>

fun replace_first :: "string \<Rightarrow> string \<Rightarrow> string \<Rightarrow> string" where
  "replace_first [] p r = (if p = [] then r else [])"
| "replace_first (c # cs) p r =
     (if startsWith (c # cs) p then r @ drop (length p) (c # cs)
      else c # replace_first cs p r)"

text \<open>\<open>s.replace(/ /g, '+')\<close>: every space becomes a plus sign.\<close>

definition replace_spaces :: "string \<Rightarrow> string" where
  "replace_spaces s = map (\<lambda>c. if c = CHR '' '' then CHR ''+'' else c) s"

text \<open>
  \<open>s.trim()\<close>: white space and line terminators are removed at both ends. Below 256 these
  are the tab, the line feed, the vertical tab, the form feed, the carriage return, the space
  and the no-break space.
\<close>

definition isWhiteSpace :: "char \<Rightarrow> bool" where
  "isWhiteSpace c =
     (c \<in> set [CHR 0x09, CHR 0x0A, CHR 0x0B, CHR 0x0C, CHR 0x0D, CHR 0x20, CHR 0xA0])"

definition trim :: "string \<Rightarrow> string" where
  "trim s = rev (dropWhile isWhiteSpace (rev (dropWhile isWhiteSpace s)))"

text \<open>
  \<open>s.toLowerCase()\<close>. Below 256 the upper-case letters are \<open>A\<close> to \<open>Z\<close> and the code units
  \<open>0xC0\<close> to \<open>0xDE\<close> but \<open>0xD7\<close> (the multiplication sign); each has its lower-case letter
  32 code units above.
\<close>

definition upper_case :: string where
  "upper_case =
     ''ABCDEFGHIJKLMNOPQRSTUVWXYZ'' @
     [CHR 0xC0, CHR 0xC1, CHR 0xC2, CHR 0xC3, CHR 0xC4, CHR 0xC5, CHR 0xC6, CHR 0xC7,
      CHR 0xC8, CHR 0xC9, CHR 0xCA, CHR 0xCB, CHR 0xCC, CHR 0xCD, CHR 0xCE, CHR 0xCF,
      CHR 0xD0, CHR 0xD1, CHR 0xD2, CHR 0xD3, CHR 0xD4, CHR 0xD5, CHR 0xD6, CHR 0xD8,
      CHR 0xD9, CHR 0xDA, CHR 0xDB, CHR 0xDC, CHR 0xDD, CHR 0xDE]"

definition lower_case :: string where
  "lower_case =
     ''abcdefghijklmnopqrstuvwxyz'' @
     [CHR 0xE0, CHR 0xE1, CHR 0xE2, CHR 0xE3, CHR 0xE4, CHR 0xE5, CHR 0xE6, CHR 0xE7,
      CHR 0xE8, CHR 0xE9, CHR 0xEA, CHR 0xEB, CHR 0xEC, CHR 0xED, CHR 0xEE, CHR 0xEF,
      CHR 0xF0, CHR 0xF1, CHR 0xF2, CHR 0xF3, CHR 0xF4, CHR 0xF5, CHR 0xF6, CHR 0xF8,
      CHR 0xF9, CHR 0xFA, CHR 0xFB, CHR 0xFC, CHR 0xFD, CHR 0xFE]"

definition toLowerCase_char :: "char \<Rightarrow> char" where
  "toLowerCase_char c =
     (case map_of (zip upper_case lower_case) c of Some l \<Rightarrow> l | None \<Rightarrow> c)"

definition toLowerCase :: "string \<Rightarrow> string" where
  "toLowerCase s = map toLowerCase_char s"

text \<open>
  \<open>const [header, base64Data] = dataUrl.split(',')\<close>: the text before the first comma, and
  the text between the first and the second comma, which is \<open>undefined\<close> (\<open>None\<close>) when
  there is no comma.
\<close>

definition split_comma :: "string \<Rightarrow> string \<times> string option" where
  "split_comma s =
     (takeWhile (\<lambda>c. c \<noteq> CHR '','') s,
      case dropWhile (\<lambda>c. c \<noteq> CHR '','') s of
        [] \<Rightarrow> None
      | _ # rest \<Rightarrow> Some (takeWhile (\<lambda>c. c \<noteq> CHR '','') rest))"

text \<open>
  \<open>header.match(/:(.*?);/)?.[1]\<close>: the match starts at the leftmost colon from which a
  semicolon is reached without crossing a line terminator, and the group is the text between
  that colon and the first such semicolon.
\<close>

fun until_semicolon :: "string \<Rightarrow> string option" where
  "until_semicolon [] = None"
| "until_semicolon (c # cs) =
     (if c = CHR '';'' then Some []
      else if c = CHR 0x0A \<or> c = CHR 0x0D then None
      else map_option ((#) c) (until_semicolon cs))"

fun match_mime :: "string \<Rightarrow> string option" where
  "match_mime [] = None"
| "match_mime (c # cs) =
     (if c = CHR '':'' then
        (case until_semicolon cs of Some m \<Rightarrow> Some m | None \<Rightarrow> match_mime cs)
      else match_mime cs)"

subsection \<open>Thrown values and the error classifier\<close>

text \<open>
  What a \<open>catch\<close> clause can receive: an \<open>Error\<close> instance with its message, or any other
  value. The \<open>TypeError\<close> of reading a property of \<open>null\<close> or \<open>undefined\<close>, and the one of
  converting to a string an object that cannot be converted, carry the engine's message (V8's
  wording is used).
\<close>

datatype js_thrown = JsError (message: string) | NonError

definition TypeError_read :: "string \<Rightarrow> string \<Rightarrow> js_thrown" where
  "TypeError_read receiver k =
     JsError (''Cannot read properties of '' @ receiver @ '' (reading '' @ [CHR 0x27] @ k @
              [CHR 0x27] @ '')'')"

definition TypeError_convert :: js_thrown where
  "TypeError_convert = JsError ''Cannot convert object to primitive value''"

definition MSG_HIGH_DEMAND :: string where
  "MSG_HIGH_DEMAND =
     ''The service is currently experiencing high demand. Please wait a moment before trying again.''"

definition MSG_CONFIGURATION :: string where
  "MSG_CONFIGURATION =
     ''There is a configuration issue with the AI service. Please notify the administrator.''"

definition MSG_TIMED_OUT :: string where
  "MSG_TIMED_OUT =
     ''The request timed out. This may be due to high server load. Please try again.''"

definition MSG_UNEXPECTED :: string where
  "MSG_UNEXPECTED =
     ''Sorry, an unexpected error occurred while communicating with the AI. Please check the console for details and try again.''"

definition handleApiError :: "js_thrown \<Rightarrow> string" where
  "handleApiError error =
     (case error of
        JsError msg \<Rightarrow>
          (let errorMessage = toLowerCase msg in
           if str_includes errorMessage ''429'' \<or> str_includes errorMessage ''resource_exhausted''
              \<or> str_includes errorMessage ''quota''
           then MSG_HIGH_DEMAND
           else if str_includes errorMessage ''api key not valid'' then MSG_CONFIGURATION
           else if str_includes errorMessage ''deadline exceeded'' then MSG_TIMED_OUT
           else MSG_UNEXPECTED)
      | NonError \<Rightarrow> MSG_UNEXPECTED)"

subsection \<open>JSON values\<close>

text \<open>
  The result of \<open>JSON.parse\<close> is stored and read without a check, so the artifact held by the
  component is an arbitrary JSON value. A number is kept as far as the component can observe
  it: whether it is zero (and so falsy) and its string conversion. \<open>undefined\<close>, which
  \<open>JSON.parse\<close> never returns, is \<open>None\<close> of \<open>json option\<close>.
\<close>

datatype json = JNull | JBool bool | JNumber bool string | JString string
  | JArray "json list" | JObject "(string \<times> json) list"

text \<open>Truthiness, as tested by \<open>if (this.appData)\<close>.\<close>

fun truthy :: "json \<Rightarrow> bool" where
  "truthy JNull = False"
| "truthy (JBool b) = b"
| "truthy (JNumber zero r) = (\<not> zero)"
| "truthy (JString s) = (s \<noteq> [])"
| "truthy (JArray xs) = True"
| "truthy (JObject kvs) = True"

text \<open>
  Reading a property: \<open>v.k\<close>. Reading from \<open>null\<close> or \<open>undefined\<close> throws; an object yields
  the value of its (last) member of that name; every other receiver yields \<open>undefined\<close>. It is
  used at the keys \<open>appName\<close>, \<open>code\<close>, \<open>html\<close>, \<open>css\<close> and \<open>javascript\<close> only, which no
  built-in prototype defines.
\<close>

fun getMember :: "json option \<Rightarrow> string \<Rightarrow> js_thrown + json option" where
  "getMember None k = Inl (TypeError_read ''undefined'' k)"
| "getMember (Some JNull) k = Inl (TypeError_read ''null'' k)"
| "getMember (Some (JObject kvs)) k = Inr (map_of (rev kvs) k)"
| "getMember (Some v) k = Inr None"

text \<open>
  String conversion of a value inside a template literal. An object is converted by its
  \<open>toString\<close> method: the one of \<open>Object.prototype\<close> gives \<open>[object Object]\<close>, but a member
  of the object named \<open>toString\<close> hides it, and as no member of a JSON value is a function
  the conversion then throws. An array is converted by \<open>join\<close>: its elements are converted in
  order, \<open>null\<close> to the empty string, and joined by commas. \<open>undefined\<close> is converted to
  \<open>undefined\<close>.
\<close>

fun ToString :: "json \<Rightarrow> js_thrown + string"
  and join_elements :: "json list \<Rightarrow> js_thrown + string" where
  "ToString JNull = Inr ''null''"
| "ToString (JBool b) = Inr (if b then ''true'' else ''false'')"
| "ToString (JNumber zero r) = Inr r"
| "ToString (JString s) = Inr s"
| "ToString (JArray xs) = join_elements xs"
| "ToString (JObject kvs) =
     (if ''toString'' \<in> set (map fst kvs) then Inl TypeError_convert
      else Inr ''[object Object]'')"
| "join_elements [] = Inr []"
| "join_elements (x # xs) =
     (case (if x = JNull then Inr [] else ToString x) of
        Inl e \<Rightarrow> Inl e
      | Inr converted \<Rightarrow>
          if xs = [] then Inr converted
          else (case join_elements xs of Inl e \<Rightarrow> Inl e | Inr rest \<Rightarrow> Inr (converted @ '','' @ rest)))"

definition interpolate :: "json option \<Rightarrow> js_thrown + string" where
  "interpolate v = (case v of None \<Rightarrow> Inr ''undefined'' | Some j \<Rightarrow> ToString j)"

subsection \<open>The fixed texts\<close>

text \<open>
  The template literals of the source, as the pieces of fixed text between their
  interpolations, in order. First the system instruction of the clarifying chat, around the
  interpolated token.
\<close>

definition chatSystemInstruction_0 :: string where
  \<open>chatSystemInstruction_0 =
    ''You are Limo, a master AI software architect and developer. Your goal is to have a detailed conversation with the user to help them specify their idea for any web-based project, from a simple website to a complex, interactive 3D application. You are an expert in modern web technologies, including HTML, CSS, JavaScript, and advanced libraries like Three.js for 3D graphics, D3.js for data visualization, and more. Ask clarifying questions about features, design, user interaction, and technical requirements. Guide them towards a complete plan. Do NOT output JSON or code. When you believe you have a clear and complete specification from the conversation, end your response with the exact token "''\<close>

definition chatSystemInstruction_1 :: string where
  \<open>chatSystemInstruction_1 =
    ''" and nothing else after it.''\<close>

text \<open>
  The modification prompt, around the HTML, the CSS and the JavaScript of the artifact and the
  request of the user.
\<close>

definition textContent_0 :: string where
  \<open>textContent_0 =
    ''You are an expert AI web developer with advanced capabilities, including using libraries like Three.js for 3D graphics. The user wants to modify the existing application.'' @ [CHR 0x0A] @
    ''        '' @ [CHR 0x0A] @
    ''        Here is the current, complete code for the app:'' @ [CHR 0x0A] @
    ''        '' @ [CHR 0x0A] @
    ''        **HTML:**'' @ [CHR 0x0A] @
    ''        ```html'' @ [CHR 0x0A] @
    ''        ''\<close>

definition textContent_1 :: string where
  \<open>textContent_1 =
    [CHR 0x0A] @
    ''        ```'' @ [CHR 0x0A] @
    ''        '' @ [CHR 0x0A] @
    ''        **CSS:**'' @ [CHR 0x0A] @
    ''        ```css'' @ [CHR 0x0A] @
    ''        ''\<close>

definition textContent_2 :: string where
  \<open>textContent_2 =
    [CHR 0x0A] @
    ''        ```'' @ [CHR 0x0A] @
    ''        '' @ [CHR 0x0A] @
    ''        **JavaScript:**'' @ [CHR 0x0A] @
    ''        ```javascript'' @ [CHR 0x0A] @
    ''        ''\<close>

definition textContent_3 :: string where
  \<open>textContent_3 =
    [CHR 0x0A] @
    ''        ```'' @ [CHR 0x0A] @
    ''        '' @ [CHR 0x0A] @
    ''        Here is the user'' @ [CHR 0x27] @ ''s modification request: "''\<close>

definition textContent_4 :: string where
  \<open>textContent_4 =
    ''"'' @ [CHR 0x0A] @
    [CHR 0x0A] @
    ''        **IMPORTANT INSTRUCTIONS:**'' @ [CHR 0x0A] @
    ''        1.  If the user'' @ [CHR 0x27] @ ''s request requires a new library (e.g., adding 3D to a 2D site with Three.js), you MUST add the library'' @ [CHR 0x27] @ ''s CDN script tag to the HTML.'' @ [CHR 0x0A] @
    ''        2.  If the request involves images, you MUST find a suitable, high-quality, royalty-free image URL from a stock photo service like Unsplash or Pexels and embed it. Do not use placeholder images.'' @ [CHR 0x0A] @
    ''        '' @ [CHR 0x0A] @
    ''        Your task is to apply the user'' @ [CHR 0x27] @ ''s requested changes to the code. You must return the COMPLETE, updated code for the entire application.'' @ [CHR 0x0A] @
    ''        Do not just return snippets. Your response MUST be a single JSON object that strictly follows the provided schema. '' @ [CHR 0x0A] @
    ''        Do not add any conversational text or explanations outside of the JSON object.''\<close>

text \<open>The synthesis instruction of the initial build.\<close>

definition buildInstruction_text_0 :: string where
  \<open>buildInstruction_text_0 =
    ''Based on our entire conversation, generate a complete, self-contained, and functional application. You are a master developer. Your capabilities include, but are not limited to:'' @ [CHR 0x0A] @
    ''    1.  **Standard Websites:** Create rich, responsive websites using HTML, CSS, and JavaScript.'' @ [CHR 0x0A] @
    ''    2.  **3D Experiences:** For 3D requests, you MUST use the Three.js library. Include it from a CDN (e.g., '' @ [CHR 0x27] @ ''https://cdn.jsdelivr.net/npm/three@latest/build/three.module.js'' @ [CHR 0x27] @ ''). Generate all necessary boilerplate: scene, camera, renderer, lighting, and the 3D objects themselves. Add controls like OrbitControls if the user wants to interact with the scene.'' @ [CHR 0x0A] @
    ''    3.  **Advanced Libraries:** Use other libraries from CDNs as needed (e.g., D3.js for charts, Socket.io for real-time chat, etc.).'' @ [CHR 0x0A] @
    ''    4.  **External Assets:** If the user'' @ [CHR 0x27] @ ''s idea requires images (e.g., a "cat gallery" or a texture for a 3D model), you MUST find suitable, high-quality, royalty-free image URLs from a stock photo service like Unsplash or Pexels. Then, embed these images directly into the HTML code or use them in your JavaScript (e.g., as textures). Do not use placeholder images.'' @ [CHR 0x0A] @
    ''    '' @ [CHR 0x0A] @
    ''    Your response MUST be a single JSON object that strictly follows the provided schema. Do not add any conversational text or explanations outside of the JSON object. Synthesize all requirements discussed to produce a fully working initial version.''\<close>

text \<open>
  The transcript entry of a completed modification, around the interpolated \<open>appName\<close>.
\<close>

definition updated_display_0 :: string where
  \<open>updated_display_0 =
    ''I'' @ [CHR 0x27] @ ''ve updated **''\<close>

definition updated_display_1 :: string where
  \<open>updated_display_1 =
    ''** with your changes! Check it out in the preview.''\<close>

text \<open>The history turn of a completed modification.\<close>

definition updated_history_0 :: string where
  \<open>updated_history_0 =
    ''Okay, I have updated the code for ''\<close>

definition updated_history_1 :: string where
  \<open>updated_history_1 =
    '' based on your request.''\<close>

text \<open>The history turn of a completed build.\<close>

definition built_history_0 :: string where
  \<open>built_history_0 =
    ''Okay, I have built the first version of ''\<close>

definition built_history_1 :: string where
  \<open>built_history_1 =
    ''.''\<close>

text \<open>The transcript entry of a completed build.\<close>

definition built_display_0 :: string where
  \<open>built_display_0 =
    ''I'' @ [CHR 0x27] @ ''ve created the first version of **''\<close>

definition built_display_1 :: string where
  \<open>built_display_1 =
    ''**! You can see it in the preview. Let me know what you'' @ [CHR 0x27] @ ''d like to change or add.''\<close>

text \<open>The font link, around the two font names.\<close>

definition fontUrl_0 :: string where
  \<open>fontUrl_0 =
    ''https://fonts.googleapis.com/css2?family=''\<close>

definition fontUrl_1 :: string where
  \<open>fontUrl_1 =
    '':wght@400;700&family=''\<close>

definition fontUrl_2 :: string where
  \<open>fontUrl_2 =
    '':wght@400;700&display=swap''\<close>

text \<open>The module script wrapper.\<close>

definition scriptTag_module_0 :: string where
  \<open>scriptTag_module_0 =
    ''<script type="module">''\<close>

definition scriptTag_module_1 :: string where
  \<open>scriptTag_module_1 =
    ''</script>''\<close>

text \<open>The classic script wrapper.\<close>

definition scriptTag_classic_0 :: string where
  \<open>scriptTag_classic_0 =
    ''<script>''\<close>

definition scriptTag_classic_1 :: string where
  \<open>scriptTag_classic_1 =
    ''</script>''\<close>

text \<open>
  The preview document of the component, around its interpolations. The fixed baseline
  stylesheet is the part of the style element between the custom properties and the CSS of
  the artifact.
\<close>

definition document_0 :: string where
  \<open>document_0 =
    [CHR 0x0A] @
    ''      <!DOCTYPE html>'' @ [CHR 0x0A] @
    ''      <html>'' @ [CHR 0x0A] @
    ''        <head>'' @ [CHR 0x0A] @
    ''          <link rel="stylesheet" href="''\<close>

definition document_1 :: string where
  \<open>document_1 =
    ''">'' @ [CHR 0x0A] @
    ''          <style>'' @ [CHR 0x0A] @
    ''            :root {'' @ [CHR 0x0A] @
    ''              --website-bg-color: ''\<close>

definition document_2 :: string where
  \<open>document_2 =
    '';'' @ [CHR 0x0A] @
    ''              --website-primary-color: ''\<close>

definition document_3 :: string where
  \<open>document_3 =
    '';'' @ [CHR 0x0A] @
    ''              --website-text-color: ''\<close>

definition document_4 :: string where
  \<open>document_4 =
    '';'' @ [CHR 0x0A] @
    ''              --website-header-font: '' @ [CHR 0x27]\<close>

definition document_5 :: string where
  \<open>document_5 =
    [CHR 0x27] @ '', sans-serif;'' @ [CHR 0x0A] @
    ''              --website-body-font: '' @ [CHR 0x27]\<close>

definition document_6 :: string where
  \<open>document_6 =
    [CHR 0x27] @ '', sans-serif;'' @ [CHR 0x0A] @
    ''            }'' @ [CHR 0x0A]\<close>

definition baseline_stylesheet :: string where
  \<open>baseline_stylesheet =
    ''            body {'' @ [CHR 0x0A] @
    ''              background-color: var(--website-bg-color);'' @ [CHR 0x0A] @
    ''              color: var(--website-text-color);'' @ [CHR 0x0A] @
    ''              font-family: var(--website-body-font);'' @ [CHR 0x0A] @
    ''              margin: 0;'' @ [CHR 0x0A] @
    ''              padding: 1rem;'' @ [CHR 0x0A] @
    ''              box-sizing: border-box;'' @ [CHR 0x0A] @
    ''              overflow: hidden;'' @ [CHR 0x0A] @
    ''            }'' @ [CHR 0x0A] @
    ''            canvas {'' @ [CHR 0x0A] @
    ''              display: block;'' @ [CHR 0x0A] @
    ''              width: 100%;'' @ [CHR 0x0A] @
    ''              height: 100%;'' @ [CHR 0x0A] @
    ''            }'' @ [CHR 0x0A] @
    ''            h1, h2, h3 {'' @ [CHR 0x0A] @
    ''              font-family: var(--website-header-font);'' @ [CHR 0x0A] @
    ''              padding: 0 1rem;'' @ [CHR 0x0A] @
    ''            }'' @ [CHR 0x0A] @
    ''            button, input[type="button"], input[type="submit"] {'' @ [CHR 0x0A] @
    ''              background-color: var(--website-primary-color);'' @ [CHR 0x0A] @
    ''              color: white;'' @ [CHR 0x0A] @
    ''              border: none;'' @ [CHR 0x0A] @
    ''              padding: 0.75em 1.5em;'' @ [CHR 0x0A] @
    ''              border-radius: 6px;'' @ [CHR 0x0A] @
    ''              cursor: pointer;'' @ [CHR 0x0A] @
    ''              font-family: var(--website-body-font);'' @ [CHR 0x0A] @
    ''            }'' @ [CHR 0x0A] @
    ''            ''\<close>

definition document_7 :: string where
  \<open>document_7 =
    [CHR 0x0A] @
    ''          </style>'' @ [CHR 0x0A] @
    ''        </head>'' @ [CHR 0x0A] @
    ''        <body>'' @ [CHR 0x0A] @
    ''          ''\<close>

definition document_8 :: string where
  \<open>document_8 =
    [CHR 0x0A] @
    ''          ''\<close>

definition document_9 :: string where
  \<open>document_9 =
    [CHR 0x0A] @
    ''        </body>'' @ [CHR 0x0A] @
    ''      </html>'' @ [CHR 0x0A] @
    ''    ''\<close>

text \<open>The preview document of \<open>src/index.tsx\<close>, likewise.\<close>

definition document_index_0 :: string where
  \<open>document_index_0 =
    [CHR 0x0A] @
    ''      <!DOCTYPE html>'' @ [CHR 0x0A] @
    ''      <html>'' @ [CHR 0x0A] @
    ''        <head>'' @ [CHR 0x0A] @
    ''          <link rel="stylesheet" href="''\<close>

definition document_index_1 :: string where
  \<open>document_index_1 =
    ''">'' @ [CHR 0x0A] @
    ''          <style>'' @ [CHR 0x0A] @
    ''            :root {'' @ [CHR 0x0A] @
    ''              --website-bg-color: ''\<close>

definition document_index_2 :: string where
  \<open>document_index_2 =
    '';'' @ [CHR 0x0A] @
    ''              --website-primary-color: ''\<close>

definition document_index_3 :: string where
  \<open>document_index_3 =
    '';'' @ [CHR 0x0A] @
    ''              --website-text-color: ''\<close>

definition document_index_4 :: string where
  \<open>document_index_4 =
    '';'' @ [CHR 0x0A] @
    ''              --website-header-font: '' @ [CHR 0x27]\<close>

definition document_index_5 :: string where
  \<open>document_index_5 =
    [CHR 0x27] @ '', sans-serif;'' @ [CHR 0x0A] @
    ''              --website-body-font: '' @ [CHR 0x27]\<close>

definition document_index_6 :: string where
  \<open>document_index_6 =
    [CHR 0x27] @ '', sans-serif;'' @ [CHR 0x0A] @
    ''            }'' @ [CHR 0x0A]\<close>

definition baseline_stylesheet_index :: string where
  \<open>baseline_stylesheet_index =
    ''            body {'' @ [CHR 0x0A] @
    ''              background-color: var(--website-bg-color);'' @ [CHR 0x0A] @
    ''              color: var(--website-text-color);'' @ [CHR 0x0A] @
    ''              font-family: var(--website-body-font);'' @ [CHR 0x0A] @
    ''              margin: 0;'' @ [CHR 0x0A] @
    ''              padding: 1rem;'' @ [CHR 0x0A] @
    ''              box-sizing: border-box;'' @ [CHR 0x0A] @
    ''            }'' @ [CHR 0x0A] @
    ''            h1, h2, h3 {'' @ [CHR 0x0A] @
    ''              font-family: var(--website-header-font);'' @ [CHR 0x0A] @
    ''            }'' @ [CHR 0x0A] @
    ''            button, input[type="button"], input[type="submit"] {'' @ [CHR 0x0A] @
    ''              background-color: var(--website-primary-color);'' @ [CHR 0x0A] @
    ''              color: white; /* Assuming white text on primary color is best */'' @ [CHR 0x0A] @
    ''              border: none;'' @ [CHR 0x0A] @
    ''              padding: 0.75em 1.5em;'' @ [CHR 0x0A] @
    ''              border-radius: 6px;'' @ [CHR 0x0A] @
    ''              cursor: pointer;'' @ [CHR 0x0A] @
    ''              font-family: var(--website-body-font);'' @ [CHR 0x0A] @
    ''            }'' @ [CHR 0x0A] @
    ''            ''\<close>

definition document_index_7 :: string where
  \<open>document_index_7 =
    [CHR 0x0A] @
    ''          </style>'' @ [CHR 0x0A] @
    ''        </head>'' @ [CHR 0x0A] @
    ''        <body>'' @ [CHR 0x0A] @
    ''          ''\<close>

definition document_index_8 :: string where
  \<open>document_index_8 =
    [CHR 0x0A] @
    ''          <script>'' @ [CHR 0x0A] @
    ''            ''\<close>

definition document_index_9 :: string where
  \<open>document_index_9 =
    [CHR 0x0A] @
    ''          </script>'' @ [CHR 0x0A] @
    ''        </body>'' @ [CHR 0x0A] @
    ''      </html>'' @ [CHR 0x0A] @
    ''    ''\<close>

subsection \<open>The data of the component\<close>

datatype Media = Image | Audio

datatype Author = Limo | User

datatype Role = RoleUser | RoleModel

datatype ActiveTab = Preview | Code

record File =
  file_name :: string
  file_type :: string

record Attachment =
  the_file :: File
  dataUrl :: string
  attachment_type :: Media

record DisplayAttachment =
  url :: string
  display_type :: Media

text \<open>An optional field of an interface is an \<open>option\<close>: \<open>None\<close> is the absent field.\<close>

record DisplayMessage =
  author :: Author
  msg_text :: string
  msg_attachment :: "DisplayAttachment option"
  proposeBuild :: "bool option"
  buildCompleted :: "bool option"

record InlineData =
  mimeType :: string
  data :: "string option"

record HistoryPart =
  part_text :: "string option"
  inlineData :: "InlineData option"

record HistoryContent =
  role :: Role
  parts :: "HistoryPart list"

text \<open>
  The reactive properties of \<open>LimoApp\<close>. The field \<open>appData\<close> is declared
  \<open>AppData | null\<close> and assigned the unchecked result of \<open>JSON.parse\<close>, so it is a JSON
  value, \<open>JNull\<close> being \<open>null\<close>. The model is of the configured component (\<open>ai\<close> is not
  \<open>null\<close>, as the handlers assert with \<open>this.ai!\<close>), whose calls go to the parameter \<open>ai\<close>
  of the handlers.
\<close>

record LimoApp =
  currentPrompt :: string
  isLoading :: bool
  error :: "string option"
  appData :: json
  activeTab :: ActiveTab
  history :: "HistoryContent list"
  displayHistory :: "DisplayMessage list"
  isFullscreen :: bool
  attachment :: "Attachment option"

definition limo_says :: "string \<Rightarrow> DisplayMessage" where
  "limo_says t =
     \<lparr>author = Limo, msg_text = t, msg_attachment = None, proposeBuild = None,
      buildCompleted = None\<rparr>"

definition GREETING :: string where
  \<open>GREETING =
    ''Hello! I'' @ [CHR 0x27] @ ''m Limo, now upgraded with advanced capabilities. I can help you design and build complex web applications, interactive 3D experiences, data visualizations, and more. Describe your most ambitious idea, and let'' @ [CHR 0x27] @ ''s build it together.''\<close>

text \<open>The state the constructor leaves.\<close>

definition initial :: LimoApp where
  "initial =
     \<lparr>currentPrompt = [], isLoading = False, error = None, appData = JNull,
      activeTab = Preview, history = [], displayHistory = [limo_says GREETING],
      isFullscreen = False, attachment = None\<rparr>"

subsection \<open>The model call\<close>

text \<open>
  The response schema is the object literal of the source: a string with its description, or
  an object with its optional description, its properties and the names it requires.
\<close>

datatype schema = STRING string | OBJECT "string option" "(string \<times> schema) list" "string list"

definition theme_properties :: "(string \<times> schema) list" where
  \<open>theme_properties =
    [(''backgroundColor'', STRING ''A CSS background color (e.g., #FFFFFF).''),
     (''primaryColor'', STRING ''The main accent color for buttons and interactive elements (e.g., #4A90E2).''),
     (''textColor'', STRING ''The primary text color (e.g., #333333).''),
     (''headerFont'', STRING ''The name of a Google Font for headers (e.g., "Poppins").''),
     (''bodyFont'', STRING ''The name of a Google Font for body text (e.g., "Lato").'')]\<close>

definition theme_required :: "string list" where
  "theme_required = [''backgroundColor'', ''primaryColor'', ''textColor'', ''headerFont'', ''bodyFont'']"

definition modification_responseSchema :: schema where
  \<open>modification_responseSchema =
    OBJECT None
      [(''appName'', STRING ''The name of the application, updated if necessary based on the request.''),
       (''theme'', OBJECT (Some ''A cohesive design theme, updated if necessary.'')
          theme_properties theme_required),
       (''code'', OBJECT (Some ''The complete and updated source code for the application.'')
          [(''html'', STRING ''The full, updated HTML body content.''),
           (''css'', STRING ''The complete, updated CSS for styling.''),
           (''javascript'', STRING ''The complete, updated JavaScript code for interactivity and logic.'')]
          [''html'', ''css'', ''javascript''])]
      [''appName'', ''theme'', ''code'']\<close>

definition build_responseSchema :: schema where
  \<open>build_responseSchema =
    OBJECT None
      [(''appName'', STRING ''A creative name for the application, website, or game.''),
       (''theme'', OBJECT (Some ''A cohesive design theme.'') theme_properties theme_required),
       (''code'', OBJECT (Some ''The complete source code for the application.'')
          [(''html'', STRING ''The full HTML body content. This can include script tags for external libraries like Three.js.''),
           (''css'', STRING ''The complete CSS for styling. It should not include a body tag selector, but can style other elements.''),
           (''javascript'', STRING ''The complete JavaScript code for interactivity and logic. This code should be a module if it uses imports from a library like Three.js.'')]
          [''html'', ''css'', ''javascript''])]
      [''appName'', ''theme'', ''code'']\<close>

datatype Config =
    ChatConfig (systemInstruction: string)
  | SchemaConfig (responseMimeType: string) (responseSchema: schema)

record GenerateContentParameters =
  model :: string
  contents :: "HistoryContent list"
  config :: Config

text \<open>
  \<open>await this.ai.models.generateContent(...)\<close> either resolves with a response, of which the
  handlers read the text (a string, as the handlers take it to be), or rejects with a thrown
  value. \<open>JSON.parse\<close> returns a value or throws (a \<open>SyntaxError\<close>, whose message is the
  engine's).
\<close>

datatype GenerateContentResponse = Resolved string | Rejected js_thrown

type_synonym GenAI = "GenerateContentParameters \<Rightarrow> GenerateContentResponse"

type_synonym JSON_parse = "string \<Rightarrow> js_thrown + json"

text \<open>
  What running a handler gives: the state it leaves, the model calls it issued, in order, and
  the value it threw outside every \<open>try\<close>, if it did (the handler's promise is then rejected
  and the rest of its body is not run).
\<close>

record Run =
  after :: LimoApp
  calls :: "GenerateContentParameters list"
  unhandled :: "js_thrown option"

definition returned :: "LimoApp \<Rightarrow> GenerateContentParameters list \<Rightarrow> Run" where
  "returned s cs = \<lparr>after = s, calls = cs, unhandled = None\<rparr>"

subsection \<open>The handlers\<close>

definition handlePromptInput :: "string \<Rightarrow> LimoApp \<Rightarrow> LimoApp" where
  "handlePromptInput v s = s\<lparr>currentPrompt := v\<rparr>"

definition removeAttachment :: "LimoApp \<Rightarrow> LimoApp" where
  "removeAttachment s = s\<lparr>attachment := None\<rparr>"

definition toggleFullscreen :: "LimoApp \<Rightarrow> LimoApp" where
  "toggleFullscreen s = s\<lparr>isFullscreen := \<not> isFullscreen s\<rparr>"

definition UNSUPPORTED_FILE :: string where
  "UNSUPPORTED_FILE = ''Unsupported file type. Please select an image or audio file.''"

text \<open>
  \<open>handleFileSelected\<close>, with the selected file \<open>input.files?.[0]\<close> if there is one. Its
  second result is the file handed to \<open>reader.readAsDataURL\<close>, if any; \<open>reader_onload\<close> is
  the callback registered for the end of that read, with \<open>reader.result\<close>.
\<close>

definition handleFileSelected :: "File option \<Rightarrow> LimoApp \<Rightarrow> LimoApp \<times> File option" where
  "handleFileSelected selected s =
     (case selected of
        None \<Rightarrow> (s, None)
      | Some f \<Rightarrow>
          if \<not> startsWith (file_type f) ''image/'' \<and> \<not> startsWith (file_type f) ''audio/''
          then (s\<lparr>error := Some UNSUPPORTED_FILE\<rparr>, None)
          else (s\<lparr>error := None\<rparr>, Some f))"

definition reader_onload :: "File \<Rightarrow> string \<Rightarrow> LimoApp \<Rightarrow> LimoApp" where
  "reader_onload f result s =
     s\<lparr>attachment :=
         Some \<lparr>the_file = f, dataUrl = result,
               attachment_type = (if startsWith (file_type f) ''image/'' then Image else Audio)\<rparr>\<rparr>"

text \<open>
  The part and the transcript entry both senders make of a pending attachment, and the parts
  of the user's turn.
\<close>

definition attachment_part :: "Attachment \<Rightarrow> HistoryPart" where
  "attachment_part a =
     (let (header, base64Data) = split_comma (dataUrl a);
          mime = (case match_mime header of
                        Some m \<Rightarrow> if m = [] then file_type (the_file a) else m
                      | None \<Rightarrow> file_type (the_file a))
      in \<lparr>part_text = None, inlineData = Some \<lparr>mimeType = mime, data = base64Data\<rparr>\<rparr>)"

definition text_part :: "string \<Rightarrow> HistoryPart" where
  "text_part t = \<lparr>part_text = Some t, inlineData = None\<rparr>"

definition user_displayMessage :: "string \<Rightarrow> Attachment option \<Rightarrow> DisplayMessage" where
  "user_displayMessage t att =
     \<lparr>author = User, msg_text = t,
      msg_attachment = map_option (\<lambda>a. \<lparr>url = dataUrl a, display_type = attachment_type a\<rparr>) att,
      proposeBuild = None, buildCompleted = None\<rparr>"

definition user_parts :: "string \<Rightarrow> Attachment option \<Rightarrow> HistoryPart list" where
  "user_parts t att =
     (case att of None \<Rightarrow> [] | Some a \<Rightarrow> [attachment_part a]) @ (if t \<noteq> [] then [text_part t] else [])"

text \<open>
  The \<open>catch\<close> and \<open>finally\<close> clauses, the same in the three handlers: the classified message
  is set, the last transcript entry is popped, the busy flag is cleared.
\<close>

definition catch_finally :: "js_thrown \<Rightarrow> LimoApp \<Rightarrow> LimoApp" where
  "catch_finally e s =
     s\<lparr>error := Some (handleApiError e), displayHistory := butlast (displayHistory s),
       isLoading := False\<rparr>"

text \<open>The transcript entry made of the model's reply in the clarifying chat.\<close>

definition aiMessage :: "string \<Rightarrow> DisplayMessage" where
  "aiMessage response_text =
     (let aiText = trim response_text;
          propose = endsWith aiText BUILD_PROPOSAL_TOKEN;
          aiText = (if propose then trim (replace_first aiText BUILD_PROPOSAL_TOKEN [])
                    else aiText)
      in \<lparr>author = Limo, msg_text = aiText, msg_attachment = None,
          proposeBuild = Some propose, buildCompleted = None\<rparr>)"

definition UPDATING :: string where
  \<open>UPDATING = ''Okay, I'' @ [CHR 0x27] @ ''m updating the app with your changes...''\<close>

definition BUILDING :: string where
  \<open>BUILDING = ''Okay, I'' @ [CHR 0x27] @ ''m building that for you now. This might take a moment...''\<close>

definition GEMINI :: string where
  "GEMINI = ''gemini-2.5-flash''"

text \<open>
  An interpolation \<open>${v.k}\<close> of a template literal reads the property and converts it to a
  string; either step can throw.
\<close>

definition interpolate_member :: "json option \<Rightarrow> string \<Rightarrow> js_thrown + string" where
  "interpolate_member v k = (case getMember v k of Inl e \<Rightarrow> Inl e | Inr m \<Rightarrow> interpolate m)"

text \<open>
  The text of the modification prompt: its interpolations read \<open>this.appData.code.html\<close>,
  \<open>.css\<close> and \<open>.javascript\<close> of the held value, in this order. Reading throws when \<open>code\<close>
  is \<open>undefined\<close> or \<open>null\<close>, and converting throws as \<open>ToString\<close> does.
\<close>

definition textContent_of :: "json \<Rightarrow> string \<Rightarrow> js_thrown + string" where
  "textContent_of app modificationPrompt =
     (case getMember (Some app) ''code'' of
        Inl e \<Rightarrow> Inl e
      | Inr code \<Rightarrow>
         (case interpolate_member code ''html'' of
            Inl e \<Rightarrow> Inl e
          | Inr html \<Rightarrow>
             (case interpolate_member code ''css'' of
                Inl e \<Rightarrow> Inl e
              | Inr css \<Rightarrow>
                 (case interpolate_member code ''javascript'' of
                    Inl e \<Rightarrow> Inl e
                  | Inr javascript \<Rightarrow>
                      Inr (textContent_0 @ html @ textContent_1 @ css @ textContent_2 @
                           javascript @ textContent_3 @ modificationPrompt @ textContent_4)))))"

text \<open>
  \<open>handleModificationRequest\<close>: the modification of an existing artifact. The two template
  literals of a completed modification interpolate the same \<open>updatedAppData.appName\<close>; the
  first, evaluated before the transcript is assigned, throws if either does.
\<close>

definition handleModificationRequest :: "GenAI \<Rightarrow> JSON_parse \<Rightarrow> string \<Rightarrow> LimoApp \<Rightarrow> Run" where
  "handleModificationRequest ai parse modificationPrompt s =
     (if \<not> truthy (appData s) then returned s []
      else
       let s1 = s\<lparr>isLoading := True, error := None\<rparr>;
           displayMessage = user_displayMessage modificationPrompt (attachment s1);
           historyUserParts = user_parts modificationPrompt (attachment s1);
           s2 = s1\<lparr>displayHistory := displayHistory s1 @ [displayMessage]\<rparr>;
           s3 = s2\<lparr>displayHistory := displayHistory s2 @ [limo_says UPDATING]\<rparr>;
           s4 = s3\<lparr>currentPrompt := [], attachment := None\<rparr>;
           imagePart = find (\<lambda>p. inlineData p \<noteq> None) historyUserParts;
           apiCallParts = (case imagePart of None \<Rightarrow> [] | Some p \<Rightarrow> [p])
       in case textContent_of (appData s4) modificationPrompt of
            Inl e \<Rightarrow> \<lparr>after = s4, calls = [], unhandled = Some e\<rparr>
          | Inr textContent \<Rightarrow>
             (let modificationInstruction =
                    \<lparr>role = RoleUser, parts = apiCallParts @ [text_part textContent]\<rparr>;
                  request = \<lparr>model = GEMINI, contents = [modificationInstruction],
                             config = SchemaConfig ''application/json'' modification_responseSchema\<rparr>
              in case ai request of
                   Rejected e \<Rightarrow> returned (catch_finally e s4) [request]
                 | Resolved response_text \<Rightarrow>
                    (let s5 = s4\<lparr>displayHistory := butlast (displayHistory s4)\<rparr>;
                         jsonText = trim response_text
                     in case parse jsonText of
                          Inl e \<Rightarrow> returned (catch_finally e s5) [request]
                        | Inr updatedAppData \<Rightarrow>
                           (let s6 = s5\<lparr>appData := updatedAppData\<rparr>
                            in case interpolate_member (Some updatedAppData) ''appName'' of
                                 Inl e \<Rightarrow> returned (catch_finally e s6) [request]
                               | Inr appName \<Rightarrow>
                                  (let s7 = s6\<lparr>displayHistory := displayHistory s6 @
                                              [limo_says (updated_display_0 @ appName @
                                                          updated_display_1)]\<rparr>;
                                       s8 = s7\<lparr>history := history s7 @
                                              [\<lparr>role = RoleUser, parts = historyUserParts\<rparr>,
                                               \<lparr>role = RoleModel,
                                                parts = [text_part (updated_history_0 @
                                                  appName @ updated_history_1)]\<rparr>]\<rparr>
                                   in returned (s8\<lparr>isLoading := False\<rparr>) [request])))))"

text \<open>
  \<open>handleSendMessage\<close>: it returns at once on an empty message or a busy component, hands
  the message to \<open>handleModificationRequest\<close> when an artifact is held, and otherwise
  continues the clarifying chat.
\<close>

definition handleSendMessage :: "GenAI \<Rightarrow> JSON_parse \<Rightarrow> LimoApp \<Rightarrow> Run" where
  "handleSendMessage ai parse s =
     (let userText = trim (currentPrompt s) in
      if (userText = [] \<and> attachment s = None) \<or> isLoading s then returned s []
      else if truthy (appData s) then handleModificationRequest ai parse userText s
      else
       let s1 = s\<lparr>isLoading := True, error := None, currentPrompt := []\<rparr>;
           displayMessage = user_displayMessage userText (attachment s1);
           userParts = user_parts userText (attachment s1);
           s2 = s1\<lparr>displayHistory := displayHistory s1 @ [displayMessage]\<rparr>;
           newUserContent = \<lparr>role = RoleUser, parts = userParts\<rparr>;
           currentHistory = history s2 @ [newUserContent];
           s3 = s2\<lparr>attachment := None\<rparr>;
           request = \<lparr>model = GEMINI, contents = currentHistory,
                      config = ChatConfig (chatSystemInstruction_0 @ BUILD_PROPOSAL_TOKEN @
                                           chatSystemInstruction_1)\<rparr>
       in case ai request of
            Resolved response_text \<Rightarrow>
              (let m = aiMessage response_text;
                   s4 = s3\<lparr>displayHistory := displayHistory s3 @ [m]\<rparr>;
                   s5 = s4\<lparr>history := currentHistory @
                              [\<lparr>role = RoleModel, parts = [text_part (msg_text m)]\<rparr>]\<rparr>
               in returned (s5\<lparr>isLoading := False\<rparr>) [request])
          | Rejected e \<Rightarrow> returned (catch_finally e s3) [request])"

text \<open>
  \<open>handleBuildApp\<close>: the Build action on the transcript entry \<open>messageIndex\<close>. Up to its
  \<open>await\<close> it marks the entry, appends the status message and makes the request;
  \<open>handleBuildApp_issue\<close> gives the state at that point, and the request. The rest of the body
  runs on the response.
\<close>

definition handleBuildApp_issue :: "nat \<Rightarrow> LimoApp \<Rightarrow> LimoApp \<times> GenerateContentParameters" where
  "handleBuildApp_issue messageIndex s =
     (let s1 = s\<lparr>isLoading := True, error := None\<rparr>;
          s2 = s1\<lparr>displayHistory :=
                    map (\<lambda>(index, msg). if index = messageIndex
                                          then msg\<lparr>buildCompleted := Some True\<rparr> else msg)
                        (enumerate 0 (displayHistory s1))\<rparr>;
          s3 = s2\<lparr>displayHistory := displayHistory s2 @ [limo_says BUILDING]\<rparr>;
          buildInstruction = \<lparr>role = RoleUser, parts = [text_part buildInstruction_text_0]\<rparr>;
          currentHistory = history s3 @ [buildInstruction];
          request = \<lparr>model = GEMINI, contents = currentHistory,
                     config = SchemaConfig ''application/json'' build_responseSchema\<rparr>
      in (s3, request))"

definition handleBuildApp_resume :: "JSON_parse \<Rightarrow> GenerateContentResponse \<Rightarrow> LimoApp \<Rightarrow> LimoApp" where
  "handleBuildApp_resume parse response s3 =
     (case response of
        Rejected e \<Rightarrow> catch_finally e s3
      | Resolved response_text \<Rightarrow>
         (let s4 = s3\<lparr>displayHistory := butlast (displayHistory s3)\<rparr>;
              jsonText = trim response_text
          in case parse jsonText of
               Inl e \<Rightarrow> catch_finally e s4
             | Inr newAppData \<Rightarrow>
                (let s5 = s4\<lparr>appData := newAppData\<rparr>
                 in case interpolate_member (Some newAppData) ''appName'' of
                      Inl e \<Rightarrow> catch_finally e s5
                    | Inr appName \<Rightarrow>
                       (let s6 = s5\<lparr>history := history s5 @
                                   [\<lparr>role = RoleModel,
                                     parts = [text_part (built_history_0 @ appName @
                                                         built_history_1)]\<rparr>]\<rparr>;
                            s7 = s6\<lparr>displayHistory := displayHistory s6 @
                                   [limo_says (built_display_0 @ appName @
                                               built_display_1)]\<rparr>;
                            s8 = s7\<lparr>activeTab := Preview\<rparr>
                        in s8\<lparr>isLoading := False\<rparr>))))"

definition handleBuildApp :: "GenAI \<Rightarrow> JSON_parse \<Rightarrow> nat \<Rightarrow> LimoApp \<Rightarrow> Run" where
  "handleBuildApp ai parse messageIndex s =
     (let (s3, request) = handleBuildApp_issue messageIndex s
      in returned (handleBuildApp_resume parse (ai request) s3) [request])"

text \<open>
  In \<open>render\<close>, a transcript entry carries the Build button when
  \<open>msg.proposeBuild && !msg.buildCompleted\<close>.
\<close>

definition build_button :: "DisplayMessage \<Rightarrow> bool" where
  "build_button msg = (proposeBuild msg = Some True \<and> buildCompleted msg \<noteq> Some True)"

subsection \<open>The preview renderer\<close>

text \<open>
  \<open>getIframeContent\<close> is modelled at the declared type of the artifact: the interfaces
  \<open>Theme\<close>, \<open>AppCode\<close> and \<open>AppData\<close>, and \<open>null\<close> as \<open>None\<close>.
\<close>

record Theme =
  backgroundColor :: string
  primaryColor :: string
  textColor :: string
  headerFont :: string
  bodyFont :: string

record AppCode =
  html :: string
  css :: string
  javascript :: string

record AppData =
  appName :: string
  theme :: Theme
  code :: AppCode

definition fontUrl :: "Theme \<Rightarrow> string" where
  "fontUrl t =
     fontUrl_0 @ replace_spaces (headerFont t) @ fontUrl_1 @ replace_spaces (bodyFont t) @ fontUrl_2"

definition custom_properties :: "Theme \<Rightarrow> string" where
  "custom_properties t =
     backgroundColor t @ document_2 @ primaryColor t @ document_3 @ textColor t @ document_4 @
     headerFont t @ document_5 @ bodyFont t"

definition scriptTag :: "AppCode \<Rightarrow> string" where
  "scriptTag c =
     (let isModule = str_includes (javascript c) ''import ''
      in if isModule then scriptTag_module_0 @ javascript c @ scriptTag_module_1
         else scriptTag_classic_0 @ javascript c @ scriptTag_classic_1)"

text \<open>The renderer of the component.\<close>

definition getIframeContent :: "AppData option \<Rightarrow> string" where
  "getIframeContent app =
     (case app of
        None \<Rightarrow> []
      | Some a \<Rightarrow>
          document_0 @ fontUrl (theme a) @ document_1 @ custom_properties (theme a) @ document_6 @
          baseline_stylesheet @ css (code a) @ document_7 @ html (code a) @ document_8 @
          scriptTag (code a) @ document_9)"

text \<open>The renderer of \<open>src/index.tsx\<close>, which has one script wrapper.\<close>

definition custom_properties_index :: "Theme \<Rightarrow> string" where
  "custom_properties_index t =
     backgroundColor t @ document_index_2 @ primaryColor t @ document_index_3 @ textColor t @
     document_index_4 @ headerFont t @ document_index_5 @ bodyFont t"

definition getIframeContent_index :: "AppData option \<Rightarrow> string" where
  "getIframeContent_index app =
     (case app of
        None \<Rightarrow> []
      | Some a \<Rightarrow>
          document_index_0 @ fontUrl (theme a) @ document_index_1 @
          custom_properties_index (theme a) @ document_index_6 @ baseline_stylesheet_index @
          css (code a) @ document_index_7 @ html (code a) @ document_index_8 @
          javascript (code a) @ document_index_9)"

subsection \<open>Events and reachable states\<close>

text \<open>
  One step of the component: an event of the page runs a handler to its end. The Build button
  is offered on the entries that \<open>render\<close> gives one and is disabled while the component is
  busy; the tab bar and the fullscreen toggle are rendered when an artifact is held.
\<close>

inductive event :: "JSON_parse \<Rightarrow> LimoApp \<Rightarrow> LimoApp \<Rightarrow> bool" for parse :: JSON_parse where
  input: "event parse s (handlePromptInput v s)"
| file_selected: "event parse s (fst (handleFileSelected selected s))"
| file_loaded:
    "handleFileSelected selected s = (s', Some f) \<Longrightarrow> event parse s (reader_onload f result s')"
| attachment_removed: "event parse s (removeAttachment s)"
| send: "event parse s (after (handleSendMessage ai parse s))"
| build:
    "i < length (displayHistory s) \<Longrightarrow> build_button (displayHistory s ! i) \<Longrightarrow> \<not> isLoading s \<Longrightarrow>
     event parse s (after (handleBuildApp ai parse i s))"
| tab: "truthy (appData s) \<Longrightarrow> event parse s (s\<lparr>activeTab := t\<rparr>)"
| fullscreen: "truthy (appData s) \<Longrightarrow> event parse s (toggleFullscreen s)"


text \<open>
  \<open>survives parse i s s'\<close>: the component goes from \<open>s\<close> to \<open>s'\<close>, and the transcript has an
  entry \<open>i\<close> in every state on the way.
\<close>

inductive survives :: "JSON_parse \<Rightarrow> nat \<Rightarrow> LimoApp \<Rightarrow> LimoApp \<Rightarrow> bool"
  for parse :: JSON_parse and i :: nat where
  here: "i < length (displayHistory s) \<Longrightarrow> survives parse i s s"
| later:
    "survives parse i s s' \<Longrightarrow> event parse s' s'' \<Longrightarrow> i < length (displayHistory s'') \<Longrightarrow>
     survives parse i s s''"

subsection \<open>The required fields of the schema\<close>

text \<open>
  The leaf fields a schema requires, as paths of property names, and the value a JSON value
  has at a path. A value misses a required field when it has nothing at one of these paths.
\<close>

fun required_leaves :: "schema \<Rightarrow> string list list" where
  "required_leaves (STRING d) = [ [] ]"
| "required_leaves (OBJECT d props req) =
     concat (map (\<lambda>(k, sch). if k \<in> set req then map ((#) k) (required_leaves sch) else []) props)"

fun at_path :: "json option \<Rightarrow> string list \<Rightarrow> json option" where
  "at_path v [] = v"
| "at_path (Some (JObject kvs)) (k # ks) = at_path (map_of (rev kvs) k) ks"
| "at_path v (k # ks) = None"

definition misses_required :: "schema \<Rightarrow> json \<Rightarrow> bool" where
  "misses_required sch v = list_ex (\<lambda>p. at_path (Some v) p = None) (required_leaves sch)"

subsection \<open>Sample collaborators\<close>

text \<open>
  A model that answers every call with the same text, and one that rejects every call; and
  \<open>JSON.parse\<close> on the texts of the examples below: the empty object, the number zero,
  \<open>null\<close>, a complete artifact, an artifact with an odd name, and text that is not JSON
  (with V8's message for \<open>not json\<close>).
\<close>

definition replies :: "string \<Rightarrow> GenAI" where
  "replies t = (\<lambda>request. Resolved t)"

definition rejects :: "js_thrown \<Rightarrow> GenAI" where
  "rejects e = (\<lambda>request. Rejected e)"

definition NOT_JSON_MESSAGE :: string where
  \<open>NOT_JSON_MESSAGE =
     ''Unexpected token '' @ [CHR 0x27] @ ''o'' @ [CHR 0x27] @ '', "not json" is not valid JSON''\<close>

definition tictactoe_text :: string where
  \<open>tictactoe_text =
     ''{"appName":"TicTacToe","theme":{"backgroundColor":"#FFFFFF","primaryColor":"#4A90E2",'' @
     ''"textColor":"#333333","headerFont":"Press Start 2P","bodyFont":"Lato"},'' @
     ''"code":{"html":"<div id='' @ [CHR 0x27] @ ''board'' @ [CHR 0x27] @ ''></div>","css":"","javascript":""}}''\<close>

definition tictactoe :: json where
  \<open>tictactoe =
     JObject
       [(''appName'', JString ''TicTacToe''),
        (''theme'', JObject
           [(''backgroundColor'', JString ''#FFFFFF''), (''primaryColor'', JString ''#4A90E2''),
            (''textColor'', JString ''#333333''), (''headerFont'', JString ''Press Start 2P''),
            (''bodyFont'', JString ''Lato'')]),
        (''code'', JObject
           [(''html'', JString (''<div id='' @ [CHR 0x27] @ ''board'' @ [CHR 0x27] @ ''></div>'')),
            (''css'', JString []), (''javascript'', JString [])])]\<close>

text \<open>An artifact whose name is an object with a member named \<open>toString\<close>.\<close>

definition odd_name_text :: string where
  \<open>odd_name_text = ''{"appName":{"toString":1}}''\<close>

definition odd_name :: json where
  "odd_name = JObject [(''appName'', JObject [(''toString'', JNumber False ''1'')])]"

definition sample_parse :: JSON_parse where
  "sample_parse t =
     (if t = ''{}'' then Inr (JObject [])
      else if t = ''0'' then Inr (JNumber True ''0'')
      else if t = ''null'' then Inr JNull
      else if t = tictactoe_text then Inr tictactoe
      else if t = odd_name_text then Inr odd_name
      else Inl (JsError NOT_JSON_MESSAGE))"

text \<open>
  A session: the user describes a game, the model proposes to build it. The transcript then
  holds the greeting, the user's message and the proposal, at index 2.
\<close>

definition proposal_made :: LimoApp where
  "proposal_made =
     after (handleSendMessage (replies ''Shall I build it? [PROPOSE_BUILD]'') sample_parse
              (handlePromptInput ''A simple Tic-Tac-Toe game'' initial))"


text \<open>The same artifact at its declared type.\<close>

definition tictactoe_app :: AppData where
  \<open>tictactoe_app =
     \<lparr>appName = ''TicTacToe'',
      theme = \<lparr>backgroundColor = ''#FFFFFF'', primaryColor = ''#4A90E2'', textColor = ''#333333'',
               headerFont = ''Press Start 2P'', bodyFont = ''Lato''\<rparr>,
      code = \<lparr>html = ''<div id='' @ [CHR 0x27] @ ''board'' @ [CHR 0x27] @ ''></div>'', css = [],
              javascript = []\<rparr>\<rparr>\<close>



text \<open>An artifact whose JavaScript is a module.\<close>

definition importing_app :: AppData where
  \<open>importing_app =
     tictactoe_app\<lparr>code := (code tictactoe_app)\<lparr>javascript := ''import confetti from "./confetti.js";''\<rparr>\<rparr>\<close>

text \<open>
  An artifact whose JavaScript is a module with no space after the keyword, and one whose
  JavaScript is a comment.
\<close>

definition compact_import_app :: AppData where
  \<open>compact_import_app =
     tictactoe_app\<lparr>code := (code tictactoe_app)\<lparr>javascript := ''import{a}from"./m.js";a()''\<rparr>\<rparr>\<close>

definition comment_app :: AppData where
  \<open>comment_app =
     tictactoe_app\<lparr>code := (code tictactoe_app)\<lparr>javascript := ''// no import needed''\<rparr>\<rparr>\<close>

section \<open>Properties\<close>

subsection \<open>Strings\<close>

lemma startsWith_iff: "startsWith s p \<longleftrightarrow> (\<exists>q. s = p @ q)"
  unfolding startsWith_def by (metis append_eq_conv_conj append_take_drop_id)

lemma str_includes_iff: "str_includes s p \<longleftrightarrow> occurs_in p s"
proof (induction s)
  case Nil
  show ?case by (auto simp: occurs_in_def)
next
  case (Cons c cs)
  show ?case
  proof
    assume "str_includes (c # cs) p"
    then consider "startsWith (c # cs) p" | "str_includes cs p" by auto
    then show "occurs_in p (c # cs)"
    proof cases
      case 1
      then obtain q where "c # cs = p @ q" by (auto simp: startsWith_iff)
      then have "c # cs = [] @ p @ q" by simp
      then show ?thesis unfolding occurs_in_def by blast
    next
      case 2
      with Cons.IH obtain u v where "cs = u @ p @ v" by (auto simp: occurs_in_def)
      then have "c # cs = (c # u) @ p @ v" by simp
      then show ?thesis unfolding occurs_in_def by blast
    qed
  next
    assume "occurs_in p (c # cs)"
    then obtain u v where uv: "c # cs = u @ p @ v" by (auto simp: occurs_in_def)
    show "str_includes (c # cs) p"
    proof (cases u)
      case Nil
      with uv have "startsWith (c # cs) p" by (auto simp: startsWith_iff)
      then show ?thesis by simp
    next
      case (Cons a u')
      with uv have "cs = u' @ p @ v" by simp
      then have "occurs_in p cs" unfolding occurs_in_def by blast
      with Cons.IH show ?thesis by simp
    qed
  qed
qed

subsection \<open>The error classifier\<close>

lemma messages_distinct:
  "distinct [MSG_HIGH_DEMAND, MSG_CONFIGURATION, MSG_TIMED_OUT, MSG_UNEXPECTED]"
  by (simp add: MSG_HIGH_DEMAND_def MSG_CONFIGURATION_def MSG_TIMED_OUT_def MSG_UNEXPECTED_def)

text \<open>
  C7. The classifier maps every caught value to exactly one of four fixed, distinct messages.
  For an \<open>Error\<close> the lower-cased message is searched in this order: a rate-limit or quota
  indicator (\<open>429\<close>, \<open>resource_exhausted\<close>, \<open>quota\<close>) gives the high-demand message; else
  the invalid-credential indicator gives the configuration message; else the timeout indicator
  gives the timed-out message; everything else, and every value that is not an \<open>Error\<close>,
  gives the generic message. The text of the error itself is never the result.
\<close>

theorem handleApiError_classifies:
  "handleApiError NonError = MSG_UNEXPECTED \<and>
   handleApiError (JsError msg) =
     (if occurs_in ''429'' (toLowerCase msg) \<or> occurs_in ''resource_exhausted'' (toLowerCase msg)
         \<or> occurs_in ''quota'' (toLowerCase msg) then MSG_HIGH_DEMAND
      else if occurs_in ''api key not valid'' (toLowerCase msg) then MSG_CONFIGURATION
      else if occurs_in ''deadline exceeded'' (toLowerCase msg) then MSG_TIMED_OUT
      else MSG_UNEXPECTED) \<and>
   handleApiError e \<in> {MSG_HIGH_DEMAND, MSG_CONFIGURATION, MSG_TIMED_OUT, MSG_UNEXPECTED} \<and>
   distinct [MSG_HIGH_DEMAND, MSG_CONFIGURATION, MSG_TIMED_OUT, MSG_UNEXPECTED]"
proof -
  have "handleApiError e \<in> {MSG_HIGH_DEMAND, MSG_CONFIGURATION, MSG_TIMED_OUT, MSG_UNEXPECTED}"
    by (cases e) (simp_all add: handleApiError_def Let_def)
  then show ?thesis
    using messages_distinct by (simp add: handleApiError_def Let_def str_includes_iff)
qed

theorem handleApiError_classifies_witness:
  "handleApiError (JsError ''[429] API key not valid'') = MSG_HIGH_DEMAND \<and>
   handleApiError (JsError ''API key not valid: Deadline Exceeded'') = MSG_CONFIGURATION"
proof -
  have l1: "toLowerCase ''[429] API key not valid'' = ''[429] api key not valid''"
    by (simp add: toLowerCase_def toLowerCase_char_def upper_case_def lower_case_def)
  have l2: "toLowerCase ''API key not valid: Deadline Exceeded'' = ''api key not valid: deadline exceeded''"
    by (simp add: toLowerCase_def toLowerCase_char_def upper_case_def lower_case_def)
  show ?thesis
    using handleApiError_classifies [of "''[429] API key not valid''"]
      handleApiError_classifies [of "''API key not valid: Deadline Exceeded''"]
    unfolding l1 l2 by (simp add: str_includes_iff [symmetric] startsWith_def)
qed

subsection \<open>Sending while busy\<close>

text \<open>
  C6. \<open>handleSendMessage\<close> on a busy component does nothing: the state it leaves is the
  state it found (so the history, the transcript, the artifact, the attachment and the prompt
  are as they were) and it issues no model call.
\<close>

theorem send_while_busy_is_noop:
  "isLoading s \<Longrightarrow>
   after (handleSendMessage ai parse s) = s \<and> calls (handleSendMessage ai parse s) = [] \<and>
   unhandled (handleSendMessage ai parse s) = None"
  by (simp add: handleSendMessage_def returned_def)

theorem send_while_busy_is_noop_witness:
  "after (handleSendMessage (replies ''ok'') sample_parse
            (initial\<lparr>currentPrompt := ''hello'', isLoading := True\<rparr>)) =
     initial\<lparr>currentPrompt := ''hello'', isLoading := True\<rparr> \<and>
   calls (handleSendMessage (replies ''ok'') sample_parse
            (initial\<lparr>currentPrompt := ''hello'', isLoading := True\<rparr>)) = []"
  using send_while_busy_is_noop
    [of "initial\<lparr>currentPrompt := ''hello'', isLoading := True\<rparr>" "replies ''ok''" sample_parse]
  by simp

subsection \<open>The sample session, evaluated\<close>

lemma trim_samples:
  "trim ''A simple Tic-Tac-Toe game'' = ''A simple Tic-Tac-Toe game''"
  "trim ''Shall I build it? [PROPOSE_BUILD]'' = ''Shall I build it? [PROPOSE_BUILD]''"
  "trim ''Shall I build it? '' = ''Shall I build it?''"
  "trim ''not json'' = ''not json''"
  "trim ''{}'' = ''{}''" "trim ''0'' = ''0''" "trim ''null'' = ''null''"
  by (simp_all add: trim_def isWhiteSpace_def)


lemma sample_parse_samples:
  "sample_parse ''not json'' = Inl (JsError NOT_JSON_MESSAGE)"
  "sample_parse ''{}'' = Inr (JObject [])"
  "sample_parse ''0'' = Inr (JNumber True ''0'')"
  "sample_parse ''null'' = Inr JNull"
  "sample_parse tictactoe_text = Inr tictactoe"
  "sample_parse odd_name_text = Inr odd_name"
  by (simp_all add: sample_parse_def tictactoe_text_def odd_name_text_def)

lemma trim_odd_name_text: "trim odd_name_text = odd_name_text"
  by (simp add: trim_def isWhiteSpace_def odd_name_text_def)

lemma odd_name_does_not_convert:
  "interpolate_member (Some odd_name) ''appName'' = Inl TypeError_convert"
  by (simp add: interpolate_member_def interpolate_def odd_name_def)

lemma convert_is_unexpected: "handleApiError TypeError_convert = MSG_UNEXPECTED"
  by (simp add: handleApiError_def TypeError_convert_def toLowerCase_def toLowerCase_char_def
      upper_case_def lower_case_def startsWith_def)

lemma not_json_is_unexpected: "handleApiError (JsError NOT_JSON_MESSAGE) = MSG_UNEXPECTED"
  by (simp add: handleApiError_def NOT_JSON_MESSAGE_def toLowerCase_def toLowerCase_char_def upper_case_def lower_case_def
      startsWith_def)

lemma aiMessage_sample:
  "aiMessage ''Shall I build it? [PROPOSE_BUILD]'' =
     \<lparr>author = Limo, msg_text = ''Shall I build it?'', msg_attachment = None,
      proposeBuild = Some True, buildCompleted = None\<rparr>"
  by (simp add: aiMessage_def trim_samples Let_def endsWith_def BUILD_PROPOSAL_TOKEN_def
      startsWith_def)

lemma proposal_made_eq:
  "proposal_made =
     initial\<lparr>history :=
               [\<lparr>role = RoleUser, parts = [text_part ''A simple Tic-Tac-Toe game'']\<rparr>,
                \<lparr>role = RoleModel, parts = [text_part ''Shall I build it?'']\<rparr>],
             displayHistory :=
               [limo_says GREETING, user_displayMessage ''A simple Tic-Tac-Toe game'' None,
                aiMessage ''Shall I build it? [PROPOSE_BUILD]'']\<rparr>"
  by (simp add: proposal_made_def handleSendMessage_def handlePromptInput_def initial_def
      trim_samples Let_def replies_def returned_def user_parts_def aiMessage_sample)

lemma proposal_made_fields:
  "appData proposal_made = JNull" "\<not> isLoading proposal_made" "error proposal_made = None"
  "attachment proposal_made = None"
  "displayHistory proposal_made =
     [limo_says GREETING, user_displayMessage ''A simple Tic-Tac-Toe game'' None,
      aiMessage ''Shall I build it? [PROPOSE_BUILD]'']"
  by (simp_all add: proposal_made_eq initial_def)

lemma issue_proposal_made:
  "displayHistory (fst (handleBuildApp_issue 2 proposal_made)) =
     [limo_says GREETING, user_displayMessage ''A simple Tic-Tac-Toe game'' None,
      (aiMessage ''Shall I build it? [PROPOSE_BUILD]'')\<lparr>buildCompleted := Some True\<rparr>,
      limo_says BUILDING]"
  "appData (fst (handleBuildApp_issue 2 proposal_made)) = JNull"
  "error (fst (handleBuildApp_issue 2 proposal_made)) = None"
  by (simp_all add: handleBuildApp_issue_def Let_def proposal_made_fields enumerate_eq_zip
      upt_rec)

subsection \<open>What the build and the modification do with a response\<close>

lemma calls_handleBuildApp:
  "calls (handleBuildApp ai parse i s) = [snd (handleBuildApp_issue i s)]"
  by (simp add: handleBuildApp_def returned_def split: prod.splits)

lemma after_handleBuildApp:
  "after (handleBuildApp ai parse i s) =
     handleBuildApp_resume parse (ai (snd (handleBuildApp_issue i s)))
       (fst (handleBuildApp_issue i s))"
  by (simp add: handleBuildApp_def returned_def split: prod.splits)


lemma issue_fields:
  "appData (fst (handleBuildApp_issue i s)) = appData s"
  "error (fst (handleBuildApp_issue i s)) = None"
  "isLoading (fst (handleBuildApp_issue i s))"
  "history (fst (handleBuildApp_issue i s)) = history s"
  by (simp_all add: handleBuildApp_issue_def Let_def)



text \<open>
  A response that parses is stored before its \<open>appName\<close> is read: the operation ends with
  an error exactly when that interpolation throws, and the value is held either way.
\<close>

lemma build_parsed:
  assumes "calls (handleBuildApp ai parse i s) = [req]" "ai req = Resolved t"
    "parse (trim t) = Inr v"
  shows "appData (after (handleBuildApp ai parse i s)) = v \<and>
         \<not> isLoading (after (handleBuildApp ai parse i s)) \<and>
         (error (after (handleBuildApp ai parse i s)) = None \<longleftrightarrow>
            (\<exists>txt. interpolate_member (Some v) ''appName'' = Inr txt))"
  using assms
  by (cases "interpolate_member (Some v) ''appName''")
    (simp_all add: calls_handleBuildApp after_handleBuildApp handleBuildApp_resume_def
      catch_finally_def issue_fields)

lemma modify_parsed:
  assumes "calls (handleModificationRequest ai parse p s) = [req]" "ai req = Resolved t"
    "parse (trim t) = Inr v"
  shows "appData (after (handleModificationRequest ai parse p s)) = v \<and>
         \<not> isLoading (after (handleModificationRequest ai parse p s)) \<and>
         (error (after (handleModificationRequest ai parse p s)) = None \<longleftrightarrow>
            (\<exists>txt. interpolate_member (Some v) ''appName'' = Inr txt))"
  using assms
  by (cases "interpolate_member (Some v) ''appName''")
    (auto simp: handleModificationRequest_def returned_def catch_finally_def Let_def
      split: if_splits sum.splits GenerateContentResponse.splits)

text \<open>
  A missing \<open>appName\<close> does not throw: it is shown as \<open>undefined\<close>. The other eight fields
  are not read when the response arrives.
\<close>

lemma missing_appName_is_undefined:
  "v \<noteq> JNull \<Longrightarrow> at_path (Some v) [''appName''] = None \<Longrightarrow>
   interpolate_member (Some v) ''appName'' = Inr ''undefined''"
  by (cases v) (simp_all add: interpolate_member_def interpolate_def)







text \<open>
  C1, as the code has it. The handlers do not check the parsed response: whatever value the
  text of the response parses to is stored as the artifact, with or without the nine required
  leaf fields, and the busy flag is cleared. An error is reported exactly when reading the
  \<open>appName\<close> of the value or converting it to a string throws, which a missing field never
  does. The required fields are asked of the model through the response schema only.
\<close>

theorem parsed_JSON_is_stored_unchecked:
  assumes "run = handleBuildApp ai parse i s \<or> run = handleModificationRequest ai parse p s"
    and "calls run = [req]" and "ai req = Resolved t" and "parse (trim t) = Inr v"
  shows "appData (after run) = v \<and> \<not> isLoading (after run) \<and>
         (error (after run) = None \<longleftrightarrow>
            (\<exists>txt. interpolate_member (Some v) ''appName'' = Inr txt))"
  using assms build_parsed [of ai parse i s req t v] modify_parsed [of ai parse p s req t v]
  by auto

lemma required_leaves_build:
  "required_leaves build_responseSchema =
     [ [''appName''], [''theme'', ''backgroundColor''], [''theme'', ''primaryColor''],
      [''theme'', ''textColor''], [''theme'', ''headerFont''], [''theme'', ''bodyFont''],
      [''code'', ''html''], [''code'', ''css''], [''code'', ''javascript'']]"
  by (simp add: build_responseSchema_def theme_properties_def theme_required_def)

lemma required_leaves_modification:
  "required_leaves modification_responseSchema = required_leaves build_responseSchema"
  by (simp add: build_responseSchema_def modification_responseSchema_def theme_properties_def
      theme_required_def)

lemma empty_object_misses_all: "misses_required build_responseSchema (JObject [])"
  by (simp add: misses_required_def required_leaves_build)

lemma tictactoe_is_complete: "\<not> misses_required build_responseSchema tictactoe"
  by (simp add: misses_required_def required_leaves_build tictactoe_def)

theorem parsed_JSON_is_stored_unchecked_witness:
  "misses_required build_responseSchema (JObject []) \<and>
   appData (after (handleBuildApp (replies ''{}'') sample_parse 2 proposal_made)) = JObject [] \<and>
   error (after (handleBuildApp (replies ''{}'') sample_parse 2 proposal_made)) = None \<and>
   \<not> isLoading (after (handleBuildApp (replies ''{}'') sample_parse 2 proposal_made))"
proof -
  have r: "replies ''{}'' q = Resolved ''{}''" for q
    by (simp add: replies_def)
  have p: "sample_parse (trim ''{}'') = Inr (JObject [])"
    by (simp add: trim_samples sample_parse_samples)
  show ?thesis
    using parsed_JSON_is_stored_unchecked
        [where run = "handleBuildApp (replies ''{}'') sample_parse 2 proposal_made"
           and ai = "replies ''{}''" and parse = sample_parse and i = 2 and s = proposal_made
           and req = "snd (handleBuildApp_issue 2 proposal_made)" and t = "''{}''"
           and v = "JObject []"]
      r p empty_object_misses_all missing_appName_is_undefined [of "JObject []"]
    by (simp add: calls_handleBuildApp)
qed

text \<open>
  The claim as it is stated fails on the empty object: its text parses, it has none of the
  nine fields, and the build stores it and shows no error.
\<close>

theorem partial_artifact_counterexample:
  "sample_parse (trim ''{}'') = Inr (JObject []) \<and>
   misses_required build_responseSchema (JObject []) \<and>
   appData (after (handleBuildApp (replies ''{}'') sample_parse 2 proposal_made)) = JObject [] \<and>
   error (after (handleBuildApp (replies ''{}'') sample_parse 2 proposal_made)) = None"
  by (simp add: trim_samples sample_parse_samples empty_object_misses_all after_handleBuildApp
      handleBuildApp_resume_def replies_def issue_fields interpolate_member_def interpolate_def)

text \<open>
  A partial artifact is then read by the next modification: with no \<open>code\<close> in the value
  held, building the prompt throws outside the \<open>try\<close>, no call is issued, and the component
  is left busy.
\<close>

lemma partial_artifact_blocks_the_next_send:
  "unhandled (handleSendMessage ai parse
                (handlePromptInput ''make it blue''
                   (after (handleBuildApp (replies ''{}'') sample_parse 2 proposal_made)))) =
     Some (TypeError_read ''undefined'' ''html'') \<and>
   calls (handleSendMessage ai parse
            (handlePromptInput ''make it blue''
               (after (handleBuildApp (replies ''{}'') sample_parse 2 proposal_made)))) = [] \<and>
   isLoading (after (handleSendMessage ai parse
                (handlePromptInput ''make it blue''
                   (after (handleBuildApp (replies ''{}'') sample_parse 2 proposal_made)))))"
proof -
  let ?s = "handlePromptInput ''make it blue''
              (after (handleBuildApp (replies ''{}'') sample_parse 2 proposal_made))"
  have f: "appData ?s = JObject []" "\<not> isLoading ?s" "currentPrompt ?s = ''make it blue''"
    by (simp_all add: handlePromptInput_def after_handleBuildApp handleBuildApp_resume_def
        replies_def trim_samples sample_parse_samples issue_fields interpolate_member_def
        interpolate_def)
  have t: "trim ''make it blue'' = ''make it blue''"
    by (simp add: trim_def isWhiteSpace_def)
  have "textContent_of (JObject []) ''make it blue'' = Inl (TypeError_read ''undefined'' ''html'')"
    by (simp add: textContent_of_def interpolate_member_def)
  then show ?thesis
    by (simp add: handleSendMessage_def handleModificationRequest_def f t Let_def)
qed

subsection \<open>The transcript after a failure\<close>

text \<open>
  When the call itself is rejected the handlers roll back as intended: the sender removes the
  user's entry, the build and the modification remove their status message and nothing else,
  the classified message is shown and the busy flag is cleared.
\<close>

lemma enumerate_mark:
  "map (\<lambda>(index, msg). if index = i then f msg else msg) (enumerate 0 d) =
     (if i < length d then d[i := f (d ! i)] else d)"
  by (auto simp: list_eq_iff_nth_eq nth_enumerate_eq nth_list_update)

lemma issue_displayHistory:
  "displayHistory (fst (handleBuildApp_issue i s)) =
     (if i < length (displayHistory s)
      then (displayHistory s)[i := (displayHistory s ! i)\<lparr>buildCompleted := Some True\<rparr>]
      else displayHistory s) @ [limo_says BUILDING]"
  by (simp add: handleBuildApp_issue_def Let_def enumerate_mark)

lemma send_rejected:
  assumes "\<not> truthy (appData s)" "\<not> isLoading s"
    "trim (currentPrompt s) \<noteq> [] \<or> attachment s \<noteq> None"
    "calls (handleSendMessage ai parse s) = [req]" "ai req = Rejected e"
  shows "displayHistory (after (handleSendMessage ai parse s)) = displayHistory s \<and>
         error (after (handleSendMessage ai parse s)) = Some (handleApiError e) \<and>
         \<not> isLoading (after (handleSendMessage ai parse s))"
  using assms
  by (auto simp: handleSendMessage_def Let_def returned_def catch_finally_def
      split: GenerateContentResponse.splits)

lemma build_rejected:
  assumes "calls (handleBuildApp ai parse i s) = [req]" "ai req = Rejected e"
  shows "displayHistory (after (handleBuildApp ai parse i s)) =
           butlast (displayHistory (fst (handleBuildApp_issue i s))) \<and>
         length (displayHistory (after (handleBuildApp ai parse i s))) =
           length (displayHistory s) \<and>
         error (after (handleBuildApp ai parse i s)) = Some (handleApiError e) \<and>
         \<not> isLoading (after (handleBuildApp ai parse i s))"
  using assms
  by (simp add: calls_handleBuildApp after_handleBuildApp handleBuildApp_resume_def
      catch_finally_def issue_displayHistory)

lemma modify_rejected:
  assumes "calls (handleModificationRequest ai parse p s) = [req]" "ai req = Rejected e"
  shows "displayHistory (after (handleModificationRequest ai parse p s)) =
           displayHistory s @ [user_displayMessage p (attachment s)] \<and>
         error (after (handleModificationRequest ai parse p s)) = Some (handleApiError e) \<and>
         \<not> isLoading (after (handleModificationRequest ai parse p s))"
  using assms
  by (auto simp: handleModificationRequest_def returned_def catch_finally_def Let_def
      butlast_append
      split: if_splits sum.splits GenerateContentResponse.splits)

text \<open>
  When the response arrives and its text does not parse, the status message has been popped
  before the parse, and the \<open>catch\<close> clause pops once more.
\<close>

lemma build_malformed_display:
  assumes "calls (handleBuildApp ai parse i s) = [req]" "ai req = Resolved t"
    "parse (trim t) = Inl e"
  shows "displayHistory (after (handleBuildApp ai parse i s)) =
           butlast (butlast (displayHistory (fst (handleBuildApp_issue i s))))"
  using assms
  by (simp add: calls_handleBuildApp after_handleBuildApp handleBuildApp_resume_def
      catch_finally_def)

text \<open>
  C3, on the sample session. The transcript holds the greeting, the user's message and the
  proposal; the Build action on the proposal gets a response that is not JSON. The transcript
  left has lost the proposal, an entry that the build did not append.
\<close>

theorem failed_build_removes_the_proposal:
  "displayHistory proposal_made =
     [limo_says GREETING, user_displayMessage ''A simple Tic-Tac-Toe game'' None,
      aiMessage ''Shall I build it? [PROPOSE_BUILD]''] \<and>
   displayHistory (after (handleBuildApp (replies ''not json'') sample_parse 2 proposal_made)) =
     [limo_says GREETING, user_displayMessage ''A simple Tic-Tac-Toe game'' None] \<and>
   error (after (handleBuildApp (replies ''not json'') sample_parse 2 proposal_made)) =
     Some MSG_UNEXPECTED"
  by (simp add: proposal_made_fields after_handleBuildApp handleBuildApp_resume_def replies_def
      trim_samples sample_parse_samples catch_finally_def issue_proposal_made
      not_json_is_unexpected)

subsection \<open>The build-proposal token\<close>

lemma aiMessage_without_token:
  "\<not> endsWith (trim t) BUILD_PROPOSAL_TOKEN \<Longrightarrow>
   aiMessage t =
     \<lparr>author = Limo, msg_text = trim t, msg_attachment = None, proposeBuild = Some False,
      buildCompleted = None\<rparr>"
  by (simp add: aiMessage_def Let_def)

lemma aiMessage_with_token:
  "endsWith (trim t) BUILD_PROPOSAL_TOKEN \<Longrightarrow>
   aiMessage t =
     \<lparr>author = Limo, msg_text = trim (replace_first (trim t) BUILD_PROPOSAL_TOKEN []),
      msg_attachment = None, proposeBuild = Some True, buildCompleted = None\<rparr>"
  by (simp add: aiMessage_def Let_def)

lemma endsWith_iff: "endsWith s p \<longleftrightarrow> (\<exists>u. s = u @ p)"
proof
  assume "endsWith s p"
  then have "s = take (length s - length p) s @ p"
    unfolding endsWith_def by (metis append_take_drop_id)
  then show "\<exists>u. s = u @ p" ..
next
  assume "\<exists>u. s = u @ p"
  then show "endsWith s p" by (auto simp: endsWith_def)
qed

lemma occurs_in_trans: "occurs_in p s \<Longrightarrow> occurs_in s w \<Longrightarrow> occurs_in p w"
proof -
  assume "occurs_in p s" "occurs_in s w"
  then obtain u v u' v' where "s = u @ p @ v" "w = u' @ s @ v'"
    unfolding occurs_in_def by blast
  then have "w = (u' @ u) @ p @ (v @ v')" by simp
  then show ?thesis unfolding occurs_in_def by blast
qed

lemma trim_occurs: "occurs_in (trim s) s"
proof -
  let ?d = "dropWhile isWhiteSpace s"
  have "?d = rev (dropWhile isWhiteSpace (rev ?d)) @ rev (takeWhile isWhiteSpace (rev ?d))"
    by (metis rev_append rev_rev_ident takeWhile_dropWhile_id)
  then have "s = takeWhile isWhiteSpace s @ trim s @ rev (takeWhile isWhiteSpace (rev ?d))"
    unfolding trim_def by (metis takeWhile_dropWhile_id)
  then show ?thesis unfolding occurs_in_def by blast
qed

text \<open>
  \<open>replace_first\<close> removes the occurrence at the end when there is no earlier one, that is,
  when the pattern does not occur in the string without its last character.
\<close>

lemma replace_first_at_end:
  "p \<noteq> [] \<Longrightarrow> \<not> occurs_in p (u @ butlast p) \<Longrightarrow> replace_first (u @ p) p [] = u"
proof (induction u)
  case Nil
  then show ?case by (cases p) (simp_all add: startsWith_def)
next
  case (Cons a u)
  have "\<not> startsWith (a # u @ p) p"
  proof
    assume "startsWith (a # u @ p) p"
    then obtain q where q: "a # u @ p = p @ q" by (auto simp: startsWith_iff)
    have "length p \<le> length ((a # u) @ butlast p)" by simp
    moreover have "take (length p) ((a # u) @ butlast p) = take (length p) ((a # u) @ p)"
    proof -
      have "(a # u) @ butlast p = butlast ((a # u) @ p)"
        using Cons.prems(1) by (simp add: butlast_append)
      moreover have "length p < length ((a # u) @ p)" by simp
      ultimately show ?thesis by (simp only: take_butlast)
    qed
    ultimately have "(a # u) @ butlast p = p @ drop (length p) ((a # u) @ butlast p)"
      using q by (metis append_Cons append_eq_conv_conj append_take_drop_id)
    then have "occurs_in p ((a # u) @ butlast p)"
      unfolding occurs_in_def by (metis append_Nil)
    with Cons.prems(2) show False by simp
  qed
  moreover have "\<not> occurs_in p (u @ butlast p)"
  proof
    assume "occurs_in p (u @ butlast p)"
    moreover have "occurs_in (u @ butlast p) ((a # u) @ butlast p)"
      unfolding occurs_in_def by (metis append_Cons append_Nil append_Nil2)
    ultimately show False using Cons.prems(2) occurs_in_trans by blast
  qed
  ultimately show ?case using Cons by (cases p) simp_all
qed

text \<open>
  So a reply that carries the token once, at its end, is shown without it and proposes the
  build.
\<close>

lemma single_trailing_token_is_stripped:
  assumes "trim t = u @ BUILD_PROPOSAL_TOKEN"
    and "\<not> occurs_in BUILD_PROPOSAL_TOKEN (u @ butlast BUILD_PROPOSAL_TOKEN)"
  shows "proposeBuild (aiMessage t) = Some True \<and> msg_text (aiMessage t) = trim u \<and>
         \<not> occurs_in BUILD_PROPOSAL_TOKEN (msg_text (aiMessage t))"
proof -
  have ne: "BUILD_PROPOSAL_TOKEN \<noteq> []" by (simp add: BUILD_PROPOSAL_TOKEN_def)
  have "endsWith (trim t) BUILD_PROPOSAL_TOKEN"
    using assms(1) endsWith_iff by blast
  then have m: "aiMessage t =
     \<lparr>author = Limo, msg_text = trim (replace_first (trim t) BUILD_PROPOSAL_TOKEN []),
      msg_attachment = None, proposeBuild = Some True, buildCompleted = None\<rparr>"
    by (rule aiMessage_with_token)
  have r: "replace_first (trim t) BUILD_PROPOSAL_TOKEN [] = u"
    using replace_first_at_end [OF ne assms(2)] assms(1) by simp
  have "occurs_in u (u @ butlast BUILD_PROPOSAL_TOKEN)"
    unfolding occurs_in_def by (metis append_Nil)
  then have "occurs_in (trim u) (u @ butlast BUILD_PROPOSAL_TOKEN)"
    using trim_occurs occurs_in_trans by blast
  then have "\<not> occurs_in BUILD_PROPOSAL_TOKEN (trim u)"
    using assms(2) occurs_in_trans by blast
  with m r show ?thesis by simp
qed

text \<open>
  C5, on a reply that names the token before ending with it: the first occurrence is the one
  removed, and the entry shown still carries the token.
\<close>

theorem repeated_token_stays_in_display:
  "last (displayHistory (after (handleSendMessage
           (replies ''Say [PROPOSE_BUILD] when ready. [PROPOSE_BUILD]'') sample_parse
           (handlePromptInput ''A simple Tic-Tac-Toe game'' initial)))) =
     \<lparr>author = Limo, msg_text = ''Say  when ready. [PROPOSE_BUILD]'', msg_attachment = None,
      proposeBuild = Some True, buildCompleted = None\<rparr> \<and>
   str_includes ''Say  when ready. [PROPOSE_BUILD]'' BUILD_PROPOSAL_TOKEN"
proof -
  have t: "trim ''Say [PROPOSE_BUILD] when ready. [PROPOSE_BUILD]'' =
             ''Say [PROPOSE_BUILD] when ready. [PROPOSE_BUILD]''"
    "trim ''Say  when ready. [PROPOSE_BUILD]'' = ''Say  when ready. [PROPOSE_BUILD]''"
    by (simp_all add: trim_def isWhiteSpace_def)
  have m: "aiMessage ''Say [PROPOSE_BUILD] when ready. [PROPOSE_BUILD]'' =
     \<lparr>author = Limo, msg_text = ''Say  when ready. [PROPOSE_BUILD]'', msg_attachment = None,
      proposeBuild = Some True, buildCompleted = None\<rparr>"
    by (simp add: aiMessage_def t Let_def endsWith_def BUILD_PROPOSAL_TOKEN_def startsWith_def)
  have "str_includes ''Say  when ready. [PROPOSE_BUILD]'' BUILD_PROPOSAL_TOKEN"
    by (simp add: BUILD_PROPOSAL_TOKEN_def startsWith_def)
  then show ?thesis
    by (simp add: handleSendMessage_def handlePromptInput_def initial_def trim_samples Let_def
        replies_def returned_def m)
qed

subsection \<open>Selecting a file\<close>

lemma audio_not_image: "startsWith t ''audio/'' \<Longrightarrow> \<not> startsWith t ''image/''"
  by (auto simp: startsWith_def)

text \<open>
  C9. A selected file whose MIME type starts with neither \<open>image/\<close> nor \<open>audio/\<close> sets the
  validation message and changes nothing else (the attachment, the history and the transcript
  are as before), and no read is started. A file whose type starts with \<open>image/\<close> or with
  \<open>audio/\<close> clears the error and is read; when the read ends, the pending attachment is that
  file with the data URL read and the coarse type of its prefix.
\<close>

theorem handleFileSelected_validates:
  "(\<not> startsWith (file_type f) ''image/'' \<and> \<not> startsWith (file_type f) ''audio/'' \<longrightarrow>
      handleFileSelected (Some f) s = (s\<lparr>error := Some UNSUPPORTED_FILE\<rparr>, None)) \<and>
   (startsWith (file_type f) ''image/'' \<longrightarrow>
      handleFileSelected (Some f) s = (s\<lparr>error := None\<rparr>, Some f) \<and>
      attachment (reader_onload f result (s\<lparr>error := None\<rparr>)) =
        Some \<lparr>the_file = f, dataUrl = result, attachment_type = Image\<rparr>) \<and>
   (startsWith (file_type f) ''audio/'' \<longrightarrow>
      handleFileSelected (Some f) s = (s\<lparr>error := None\<rparr>, Some f) \<and>
      attachment (reader_onload f result (s\<lparr>error := None\<rparr>)) =
        Some \<lparr>the_file = f, dataUrl = result, attachment_type = Audio\<rparr>)"
  by (auto simp: handleFileSelected_def reader_onload_def dest: audio_not_image)

theorem handleFileSelected_validates_witness:
  "handleFileSelected (Some \<lparr>file_name = ''notes.pdf'', file_type = ''application/pdf''\<rparr>) initial =
     (initial\<lparr>error := Some UNSUPPORTED_FILE\<rparr>, None) \<and>
   attachment (reader_onload \<lparr>file_name = ''board.png'', file_type = ''image/png''\<rparr>
                 ''data:image/png;base64,AAAA'' (initial\<lparr>error := None\<rparr>)) =
     Some \<lparr>the_file = \<lparr>file_name = ''board.png'', file_type = ''image/png''\<rparr>,
           dataUrl = ''data:image/png;base64,AAAA'', attachment_type = Image\<rparr> \<and>
   attachment (reader_onload \<lparr>file_name = ''hum.mp3'', file_type = ''audio/mpeg''\<rparr>
                 ''data:audio/mpeg;base64,AAAA'' (initial\<lparr>error := None\<rparr>)) =
     Some \<lparr>the_file = \<lparr>file_name = ''hum.mp3'', file_type = ''audio/mpeg''\<rparr>,
           dataUrl = ''data:audio/mpeg;base64,AAAA'', attachment_type = Audio\<rparr>"
  using handleFileSelected_validates
      [of "\<lparr>file_name = ''notes.pdf'', file_type = ''application/pdf''\<rparr>" initial]
    handleFileSelected_validates
      [of "\<lparr>file_name = ''board.png'', file_type = ''image/png''\<rparr>" initial
          "''data:image/png;base64,AAAA''"]
    handleFileSelected_validates
      [of "\<lparr>file_name = ''hum.mp3'', file_type = ''audio/mpeg''\<rparr>" initial
          "''data:audio/mpeg;base64,AAAA''"]
  by (simp add: startsWith_def)

subsection \<open>Routing a message when an artifact is held\<close>




lemma send_with_artifact:
  "truthy (appData s) \<Longrightarrow>
   handleSendMessage ai parse s =
     (if (trim (currentPrompt s) = [] \<and> attachment s = None) \<or> isLoading s then returned s []
      else handleModificationRequest ai parse (trim (currentPrompt s)) s)"
  by (simp add: handleSendMessage_def Let_def)












subsection \<open>The preview document\<close>

lemma occurs_in_head: "occurs_in x (x @ v)"
  unfolding occurs_in_def by (metis append_Nil)

lemma occurs_in_skip: "occurs_in x w \<Longrightarrow> occurs_in x (u @ w)"
proof -
  assume "occurs_in x w"
  then obtain p q where "w = p @ x @ q" unfolding occurs_in_def by blast
  then have "u @ w = (u @ p) @ x @ q" by simp
  then show ?thesis unfolding occurs_in_def by blast
qed

lemma occurs_in_head5: "occurs_in (a @ b @ c @ d @ e) (a @ b @ c @ d @ e @ v)"
proof -
  have "a @ b @ c @ d @ e @ v = (a @ b @ c @ d @ e) @ v" by simp
  then show ?thesis by (simp only: occurs_in_head)
qed

lemma scriptTag_eq:
  \<open>scriptTag c =
     (if occurs_in ''import '' (javascript c)
      then ''<script type="module">'' @ javascript c @ ''</script>''
      else ''<script>'' @ javascript c @ ''</script>'')\<close>
  by (simp add: scriptTag_def str_includes_iff scriptTag_module_0_def scriptTag_module_1_def
      scriptTag_classic_0_def scriptTag_classic_1_def)

text \<open>
  The documents. Each renderer is a function of the artifact alone, and gives the empty
  string when there is none. The document of the component is the text below: the font link
  built from the two font names with every space replaced by a plus sign, the five custom
  properties of the theme, the fixed baseline stylesheet followed by the CSS of the artifact,
  its HTML, and its JavaScript in a script element, which is a module script when the code
  contains the text \<open>import \<close> (the test of the source) and a classic script otherwise. The
  document of \<open>src/index.tsx\<close> has the same parts with its own baseline stylesheet, and its
  JavaScript always in a classic script.
\<close>

lemma getIframeContent_document:
  \<open>getIframeContent None = [] \<and> getIframeContent_index None = [] \<and>
   replace_spaces f = map (\<lambda>c. if c = CHR '' '' then CHR ''+'' else c) f \<and>
   getIframeContent (Some a) =
       [CHR 0x0A] @
       ''      <!DOCTYPE html>'' @ [CHR 0x0A] @
       ''      <html>'' @ [CHR 0x0A] @
       ''        <head>'' @ [CHR 0x0A] @
       ''          <link rel="stylesheet" href="'' @
       ''https://fonts.googleapis.com/css2?family='' @ replace_spaces (headerFont (theme a)) @
       '':wght@400;700&family='' @ replace_spaces (bodyFont (theme a)) @
       '':wght@400;700&display=swap'' @
       ''">'' @ [CHR 0x0A] @
       ''          <style>'' @ [CHR 0x0A] @
       ''            :root {'' @ [CHR 0x0A] @
       ''              --website-bg-color: '' @
       backgroundColor (theme a) @
       '';'' @ [CHR 0x0A] @
       ''              --website-primary-color: '' @
       primaryColor (theme a) @
       '';'' @ [CHR 0x0A] @
       ''              --website-text-color: '' @
       textColor (theme a) @
       '';'' @ [CHR 0x0A] @
       ''              --website-header-font: '' @ [CHR 0x27] @
       headerFont (theme a) @
       [CHR 0x27] @ '', sans-serif;'' @ [CHR 0x0A] @
       ''              --website-body-font: '' @ [CHR 0x27] @
       bodyFont (theme a) @
       [CHR 0x27] @ '', sans-serif;'' @ [CHR 0x0A] @
       ''            }'' @ [CHR 0x0A] @
       baseline_stylesheet @
       css (code a) @
       [CHR 0x0A] @
       ''          </style>'' @ [CHR 0x0A] @
       ''        </head>'' @ [CHR 0x0A] @
       ''        <body>'' @ [CHR 0x0A] @
       ''          '' @
       html (code a) @
       [CHR 0x0A] @
       ''          '' @
       (if occurs_in ''import '' (javascript (code a))
        then ''<script type="module">'' @ javascript (code a) @ ''</script>''
        else ''<script>'' @ javascript (code a) @ ''</script>'') @
       [CHR 0x0A] @
       ''        </body>'' @ [CHR 0x0A] @
       ''      </html>'' @ [CHR 0x0A] @
       ''    '' \<and>
   getIframeContent_index (Some a) =
       [CHR 0x0A] @
       ''      <!DOCTYPE html>'' @ [CHR 0x0A] @
       ''      <html>'' @ [CHR 0x0A] @
       ''        <head>'' @ [CHR 0x0A] @
       ''          <link rel="stylesheet" href="'' @
       ''https://fonts.googleapis.com/css2?family='' @ replace_spaces (headerFont (theme a)) @
       '':wght@400;700&family='' @ replace_spaces (bodyFont (theme a)) @
       '':wght@400;700&display=swap'' @
       ''">'' @ [CHR 0x0A] @
       ''          <style>'' @ [CHR 0x0A] @
       ''            :root {'' @ [CHR 0x0A] @
       ''              --website-bg-color: '' @
       backgroundColor (theme a) @
       '';'' @ [CHR 0x0A] @
       ''              --website-primary-color: '' @
       primaryColor (theme a) @
       '';'' @ [CHR 0x0A] @
       ''              --website-text-color: '' @
       textColor (theme a) @
       '';'' @ [CHR 0x0A] @
       ''              --website-header-font: '' @ [CHR 0x27] @
       headerFont (theme a) @
       [CHR 0x27] @ '', sans-serif;'' @ [CHR 0x0A] @
       ''              --website-body-font: '' @ [CHR 0x27] @
       bodyFont (theme a) @
       [CHR 0x27] @ '', sans-serif;'' @ [CHR 0x0A] @
       ''            }'' @ [CHR 0x0A] @
       baseline_stylesheet_index @
       css (code a) @
       [CHR 0x0A] @
       ''          </style>'' @ [CHR 0x0A] @
       ''        </head>'' @ [CHR 0x0A] @
       ''        <body>'' @ [CHR 0x0A] @
       ''          '' @
       html (code a) @
       [CHR 0x0A] @
       ''          <script>'' @ [CHR 0x0A] @
       ''            '' @
       javascript (code a) @
       [CHR 0x0A] @
       ''          </script>'' @ [CHR 0x0A] @
       ''        </body>'' @ [CHR 0x0A] @
       ''      </html>'' @ [CHR 0x0A] @
       ''    ''\<close>
  by (intro conjI)
    (simp_all add: getIframeContent_def getIframeContent_index_def replace_spaces_def fontUrl_def
      custom_properties_def custom_properties_index_def scriptTag_eq fontUrl_0_def fontUrl_1_def
      fontUrl_2_def document_0_def document_1_def document_2_def document_3_def document_4_def
      document_5_def document_6_def document_7_def document_8_def document_9_def
      document_index_0_def document_index_1_def document_index_2_def document_index_3_def
      document_index_4_def document_index_5_def document_index_6_def document_index_7_def
      document_index_8_def document_index_9_def)

text \<open>
  On the sample artifact the document holds the board and the font link with the spaces of
  the font name replaced.
\<close>

lemma sample_document:
  "occurs_in (''<div id='' @ [CHR 0x27] @ ''board'' @ [CHR 0x27] @ ''></div>'')
     (getIframeContent (Some tictactoe_app)) \<and>
   occurs_in ''https://fonts.googleapis.com/css2?family=Press+Start+2P:wght@400;700&family=Lato:wght@400;700&display=swap''
     (getIframeContent (Some tictactoe_app))"
proof -
  have f: "replace_spaces ''Press Start 2P'' = ''Press+Start+2P''" "replace_spaces ''Lato'' = ''Lato''"
    by (simp_all add: replace_spaces_def)
  note th = getIframeContent_document [of "''Lato''" tictactoe_app, THEN conjunct2, THEN conjunct2,
      THEN conjunct2, THEN conjunct1]
  have "occurs_in (html (code tictactoe_app)) (getIframeContent (Some tictactoe_app))"
    unfolding th by (rule occurs_in_head | rule occurs_in_skip)+
  moreover have "occurs_in (''https://fonts.googleapis.com/css2?family='' @
                   replace_spaces (headerFont (theme tictactoe_app)) @ '':wght@400;700&family='' @
                   replace_spaces (bodyFont (theme tictactoe_app)) @ '':wght@400;700&display=swap'')
                   (getIframeContent (Some tictactoe_app))"
    unfolding th by (rule occurs_in_head5 | rule occurs_in_skip)+
  ultimately show ?thesis
    by (simp add: tictactoe_app_def f)
qed

text \<open>
  The renderer of \<open>src/index.tsx\<close> has no module script: the JavaScript of the artifact below
  contains an import statement, and its document has a classic script only.
\<close>

lemma index_renderer_has_no_module_script:
  \<open>str_includes (javascript (code importing_app)) ''import '' \<and>
   \<not> str_includes (getIframeContent_index (Some importing_app)) ''<script type="module">''\<close>
proof -
  have "str_includes (javascript (code importing_app)) ''import ''"
    by (simp add: importing_app_def tictactoe_app_def startsWith_def)
  moreover have \<open>\<not> str_includes (getIframeContent_index (Some importing_app))
                     ''<script type="module">''\<close>
    by (simp add: getIframeContent_index_def fontUrl_def custom_properties_index_def
        fontUrl_0_def fontUrl_1_def fontUrl_2_def document_index_0_def document_index_1_def
        document_index_2_def document_index_3_def document_index_4_def document_index_5_def
        document_index_6_def document_index_7_def document_index_8_def document_index_9_def
        baseline_stylesheet_index_def importing_app_def tictactoe_app_def replace_spaces_def
        startsWith_def)
  ultimately show ?thesis by simp
qed

text \<open>
  In the renderer of the component the test for a module is the text \<open>import \<close>, with the
  space. A comment that has this text makes the script a module script.
\<close>

lemma comment_gets_module_script:
  \<open>scriptTag (code comment_app) = ''<script type="module">// no import needed</script>''\<close>
  by (simp add: scriptTag_def comment_app_def tictactoe_app_def startsWith_def
      scriptTag_module_0_def scriptTag_module_1_def)

text \<open>
  C8, on an artifact whose JavaScript is a module that writes its import statement without a
  space after the keyword: the test of the renderer misses it, the script element is a
  classic script, and the document has no module script.
\<close>

theorem import_without_space_gets_classic_script:
  \<open>javascript (code compact_import_app) = ''import{a}from"./m.js";a()'' \<and>
   scriptTag (code compact_import_app) = ''<script>import{a}from"./m.js";a()</script>'' \<and>
   occurs_in (scriptTag (code compact_import_app)) (getIframeContent (Some compact_import_app)) \<and>
   \<not> str_includes (getIframeContent (Some compact_import_app)) ''<script type="module">''\<close>
proof -
  have j: \<open>javascript (code compact_import_app) = ''import{a}from"./m.js";a()''\<close>
    by (simp add: compact_import_app_def)
  have t: \<open>scriptTag (code compact_import_app) = ''<script>import{a}from"./m.js";a()</script>''\<close>
    by (simp add: scriptTag_def j startsWith_def scriptTag_classic_0_def scriptTag_classic_1_def)
  have "occurs_in (scriptTag (code compact_import_app))
          (getIframeContent (Some compact_import_app))"
    unfolding getIframeContent_def option.case
    by (rule occurs_in_head | rule occurs_in_skip)+
  moreover have \<open>\<not> str_includes (getIframeContent (Some compact_import_app))
                     ''<script type="module">''\<close>
    unfolding getIframeContent_def option.case t
    by (simp add: fontUrl_def custom_properties_def
        fontUrl_0_def fontUrl_1_def fontUrl_2_def document_0_def document_1_def document_2_def
        document_3_def document_4_def document_5_def document_6_def document_7_def
        document_8_def document_9_def baseline_stylesheet_def compact_import_app_def
        tictactoe_app_def replace_spaces_def startsWith_def)
  ultimately show ?thesis using j t by simp
qed

subsection \<open>The flag of a built proposal\<close>

lemma modify_display:
  "\<exists>xs. displayHistory (after (handleModificationRequest ai parse p s)) = displayHistory s @ xs"
  by (auto simp: handleModificationRequest_def returned_def catch_finally_def Let_def
      butlast_append split: if_splits sum.splits GenerateContentResponse.splits)

lemma send_display:
  "\<exists>xs. displayHistory (after (handleSendMessage ai parse s)) = displayHistory s @ xs"
proof (cases "(trim (currentPrompt s) = [] \<and> attachment s = None) \<or> isLoading s")
  case True
  then show ?thesis by (simp add: handleSendMessage_def returned_def)
next
  case idle: False
  show ?thesis
  proof (cases "truthy (appData s)")
    case True
    with idle modify_display [of ai parse "trim (currentPrompt s)" s] show ?thesis
      by (auto simp: send_with_artifact)
  next
    case False
    with idle show ?thesis
      by (auto simp: handleSendMessage_def returned_def catch_finally_def Let_def butlast_append
          split: GenerateContentResponse.splits)
  qed
qed

lemma build_display:
  "(\<exists>xs. displayHistory (after (handleBuildApp ai parse i s)) =
          butlast (displayHistory (fst (handleBuildApp_issue i s))) @ xs) \<or>
   displayHistory (after (handleBuildApp ai parse i s)) =
     butlast (butlast (displayHistory (fst (handleBuildApp_issue i s))))"
  by (auto simp: after_handleBuildApp handleBuildApp_resume_def catch_finally_def Let_def
      split: sum.splits GenerateContentResponse.splits)

lemma marked_flag:
  assumes "j < length d" "buildCompleted (d ! j) = Some True \<or> j = i"
  shows "buildCompleted
           ((if i < length d then d[i := (d ! i)\<lparr>buildCompleted := Some True\<rparr>] else d) ! j) =
         Some True"
  using assms by (auto simp: nth_list_update)

lemma build_keeps_flag:
  assumes "j < length (displayHistory s)"
    and "j < length (displayHistory (after (handleBuildApp ai parse i s)))"
    and "buildCompleted (displayHistory s ! j) = Some True \<or> j = i"
  shows "buildCompleted (displayHistory (after (handleBuildApp ai parse i s)) ! j) = Some True"
proof -
  let ?d = "displayHistory s"
  let ?m = "if i < length ?d then ?d[i := (?d ! i)\<lparr>buildCompleted := Some True\<rparr>] else ?d"
  have b: "butlast (displayHistory (fst (handleBuildApp_issue i s))) = ?m"
    by (simp add: issue_displayHistory)
  have l: "length ?m = length ?d" by simp
  have f: "buildCompleted (?m ! j) = Some True"
    using marked_flag [OF assms(1,3)] .
  from build_display [of ai parse i s] show ?thesis
  proof
    assume "\<exists>xs. displayHistory (after (handleBuildApp ai parse i s)) =
              butlast (displayHistory (fst (handleBuildApp_issue i s))) @ xs"
    then obtain xs where "displayHistory (after (handleBuildApp ai parse i s)) = ?m @ xs"
      using b by auto
    with assms(1) l f show ?thesis by (simp add: nth_append)
  next
    assume e: "displayHistory (after (handleBuildApp ai parse i s)) =
              butlast (butlast (displayHistory (fst (handleBuildApp_issue i s))))"
    with b have e': "displayHistory (after (handleBuildApp ai parse i s)) = butlast ?m" by simp
    with assms(2) have "j < length (butlast ?m)" by simp
    then have "butlast ?m ! j = ?m ! j" by (rule nth_butlast)
    with e' f show ?thesis by simp
  qed
qed

lemma event_keeps_flag:
  assumes "event parse s s'" and "j < length (displayHistory s)"
    and "j < length (displayHistory s')" and "buildCompleted (displayHistory s ! j) = Some True"
  shows "buildCompleted (displayHistory s' ! j) = Some True"
  using assms(1)
proof cases
  case (input v)
  with assms show ?thesis by (simp add: handlePromptInput_def)
next
  case (file_selected selected)
  with assms show ?thesis by (simp add: handleFileSelected_def split: option.splits)
next
  case (file_loaded selected s1 f result)
  then have "displayHistory s1 = displayHistory s"
    by (auto simp: handleFileSelected_def split: option.splits if_splits)
  with file_loaded assms show ?thesis by (simp add: reader_onload_def)
next
  case attachment_removed
  with assms show ?thesis by (simp add: removeAttachment_def)
next
  case (send ai)
  with send_display [of ai parse s] obtain xs where "displayHistory s' = displayHistory s @ xs"
    by auto
  with assms show ?thesis by (simp add: nth_append)
next
  case (build i ai)
  with assms build_keeps_flag [of j s ai parse i] show ?thesis by simp
next
  case (tab t)
  with assms show ?thesis by simp
next
  case fullscreen
  with assms show ?thesis by (simp add: toggleFullscreen_def)
qed

lemma survives_keeps_flag:
  assumes "survives parse i s s'" and "buildCompleted (displayHistory s ! i) = Some True"
  shows "i < length (displayHistory s') \<and> buildCompleted (displayHistory s' ! i) = Some True"
  using assms
proof (induction rule: survives.induct)
  case (here s)
  then show ?case by simp
next
  case (later s s' s'')
  then show ?case using event_keeps_flag [of parse s' s'' i] by simp
qed

text \<open>
  A build that ends with an error has either left the value held as it was (the call was
  rejected, or the text of the response did not parse), or stored a parsed response whose
  \<open>appName\<close> could not be interpolated.
\<close>

lemma failed_build_appData:
  assumes "error (after (handleBuildApp ai parse i s)) \<noteq> None"
  shows "appData (after (handleBuildApp ai parse i s)) = appData s \<or>
         (\<exists>t. ai (snd (handleBuildApp_issue i s)) = Resolved t \<and>
              parse (trim t) = Inr (appData (after (handleBuildApp ai parse i s))) \<and>
              (\<forall>txt. interpolate_member (Some (appData (after (handleBuildApp ai parse i s))))
                       ''appName'' \<noteq> Inr txt))"
  using assms
  by (auto simp: after_handleBuildApp handleBuildApp_resume_def catch_finally_def Let_def
      issue_fields split: sum.splits GenerateContentResponse.splits)

text \<open>
  C10, as the code has it. The Build action on an entry of the transcript sets the entry's
  \<open>buildCompleted\<close> flag before the request is issued: the flag is set in the state in which
  the call is made. No handler resets it. So whatever the response, in every later state
  reached while the entry stays in the transcript, the flag is set and \<open>render\<close> gives the
  entry no Build button. A build that ends with an error has produced no artifact when the
  call was rejected or the text of the response did not parse; a response that parses is
  stored before its \<open>appName\<close> is read, and is the value held when the build fails there.
\<close>

theorem build_marks_the_proposal_for_good:
  assumes "i < length (displayHistory s)"
  shows "buildCompleted (displayHistory (fst (handleBuildApp_issue i s)) ! i) = Some True \<and>
         (survives parse i (after (handleBuildApp ai parse i s)) s' \<longrightarrow>
            buildCompleted (displayHistory s' ! i) = Some True \<and>
            \<not> build_button (displayHistory s' ! i)) \<and>
         (error (after (handleBuildApp ai parse i s)) \<noteq> None \<longrightarrow>
            appData (after (handleBuildApp ai parse i s)) = appData s \<or>
            (\<exists>t. ai (snd (handleBuildApp_issue i s)) = Resolved t \<and>
                 parse (trim t) = Inr (appData (after (handleBuildApp ai parse i s))) \<and>
                 (\<forall>txt. interpolate_member (Some (appData (after (handleBuildApp ai parse i s))))
                          ''appName'' \<noteq> Inr txt)))"
proof -
  have "buildCompleted (displayHistory (fst (handleBuildApp_issue i s)) ! i) = Some True"
    using assms by (simp add: issue_displayHistory nth_append)
  moreover have "buildCompleted (displayHistory s' ! i) = Some True \<and>
                 \<not> build_button (displayHistory s' ! i)"
    if sv: "survives parse i (after (handleBuildApp ai parse i s)) s'"
  proof -
    from sv have "i < length (displayHistory (after (handleBuildApp ai parse i s)))"
      by (induction rule: survives.induct) simp_all
    then have "buildCompleted (displayHistory (after (handleBuildApp ai parse i s)) ! i) =
                 Some True"
      using build_keeps_flag [OF assms, of ai parse i] by simp
    with survives_keeps_flag [OF sv] show ?thesis by (simp add: build_button_def)
  qed
  ultimately show ?thesis using failed_build_appData [of ai parse i s] by blast
qed

lemma rejected_sample_build:
  "displayHistory (after (handleBuildApp (rejects NonError) sample_parse 2 proposal_made)) =
     [limo_says GREETING, user_displayMessage ''A simple Tic-Tac-Toe game'' None,
      (aiMessage ''Shall I build it? [PROPOSE_BUILD]'')\<lparr>buildCompleted := Some True\<rparr>]"
  "error (after (handleBuildApp (rejects NonError) sample_parse 2 proposal_made)) =
     Some MSG_UNEXPECTED"
  by (simp_all add: after_handleBuildApp handleBuildApp_resume_def rejects_def catch_finally_def
      issue_proposal_made handleApiError_def)

theorem build_marks_the_proposal_for_good_witness:
  "buildCompleted
     (displayHistory (handlePromptInput ''again''
        (after (handleBuildApp (rejects NonError) sample_parse 2 proposal_made))) ! 2) = Some True \<and>
   \<not> build_button
     (displayHistory (handlePromptInput ''again''
        (after (handleBuildApp (rejects NonError) sample_parse 2 proposal_made))) ! 2) \<and>
   error (after (handleBuildApp (rejects NonError) sample_parse 2 proposal_made)) =
     Some MSG_UNEXPECTED \<and>
   appData (after (handleBuildApp (rejects NonError) sample_parse 2 proposal_made)) = JNull"
proof -
  let ?failed = "after (handleBuildApp (rejects NonError) sample_parse 2 proposal_made)"
  have l: "2 < length (displayHistory proposal_made)"
    by (simp add: proposal_made_fields)
  have "survives sample_parse 2 ?failed ?failed"
    by (rule survives.here) (simp add: rejected_sample_build)
  moreover have "event sample_parse ?failed (handlePromptInput ''again'' ?failed)"
    by (rule event.input)
  moreover have "2 < length (displayHistory (handlePromptInput ''again'' ?failed))"
    by (simp add: handlePromptInput_def rejected_sample_build)
  ultimately have sv: "survives sample_parse 2 ?failed (handlePromptInput ''again'' ?failed)"
    by (rule survives.later)
  have e: "error ?failed \<noteq> None"
    by (simp add: rejected_sample_build)
  note th = build_marks_the_proposal_for_good
      [OF l, of sample_parse "rejects NonError" "handlePromptInput ''again'' ?failed"]
  have "appData ?failed = JNull"
    using th [THEN conjunct2, THEN conjunct2, THEN mp, OF e]
    by (auto simp: proposal_made_fields rejects_def)
  with th [THEN conjunct2, THEN conjunct1, THEN mp, OF sv] show ?thesis
    by (simp add: rejected_sample_build)
qed

text \<open>
  The claim as it is stated fails where it says that a failed build has produced no artifact.
  The sample build answered with an artifact whose name is an object with a member named
  \<open>toString\<close> ends with an error, and the value held, \<open>null\<close> before, is that artifact.
\<close>

theorem failed_build_with_artifact_counterexample:
  "appData proposal_made = JNull \<and>
   error (after (handleBuildApp (replies odd_name_text) sample_parse 2 proposal_made)) =
     Some MSG_UNEXPECTED \<and>
   appData (after (handleBuildApp (replies odd_name_text) sample_parse 2 proposal_made)) =
     odd_name \<and>
   truthy odd_name"
  by (simp add: proposal_made_fields after_handleBuildApp handleBuildApp_resume_def replies_def
      trim_odd_name_text sample_parse_samples odd_name_does_not_convert catch_finally_def
      convert_is_unexpected issue_fields) (simp add: odd_name_def)

end
